theory Spec2Isabelle
  imports Main "HOL-Library.Sublist" "HOL-Library.Multiset"
begin

section \<open>JavaScript values and strings\<close>

text \<open>
  The exporter (\<^verbatim>\<open>index.js\<close>, class \<^verbatim>\<open>HelpCrunchExporter\<close>) reads JSON
  records whose fields may be absent, \<^verbatim>\<open>null\<close>, numbers or strings. A field value is a
  \<open>jsval\<close>; \<open>JUndefined\<close> is an absent key. \<open>JNum n\<close> is a number whose value is the
  integer \<open>n\<close> (the API's ids and unix timestamps are integers; fractions are not
  modelled); \<open>JObj\<close> is any plain object whose content the program never reads. A
  string is a list of characters, one per code unit below 256.
\<close>

datatype jsval = JUndefined | JNull | JBool bool | JNum int | JStr string | JObj

datatype js_error = TypeError | RangeError

text \<open>Truthiness, and \<^verbatim>\<open>a || b\<close> on values.\<close>

fun truthy :: "jsval \<Rightarrow> bool" where
  "truthy JUndefined = False"
| "truthy JNull = False"
| "truthy (JBool b) = b"
| "truthy (JNum n) = (n \<noteq> 0)"
| "truthy (JStr s) = (s \<noteq> [])"
| "truthy JObj = True"

definition js_or :: "jsval \<Rightarrow> jsval \<Rightarrow> jsval" where
  "js_or a b = (if truthy a then a else b)"

text \<open>White space and line terminators that \<^verbatim>\<open>String.prototype.trim\<close> strips.\<close>

definition isWhiteSpace :: "char \<Rightarrow> bool" where
  "isWhiteSpace c = (of_char c \<in> {9, 10, 11, 12, 13, 32, 160 :: nat})"

definition trimStart :: "string \<Rightarrow> string" where
  "trimStart s = dropWhile isWhiteSpace s"

definition trimEnd :: "string \<Rightarrow> string" where
  "trimEnd s = rev (dropWhile isWhiteSpace (rev s))"

definition trim :: "string \<Rightarrow> string" where
  "trim s = trimEnd (trimStart s)"

text \<open>\<^verbatim>\<open>String.prototype.toLowerCase\<close> on code units below 256.\<close>

definition toLowerChar :: "char \<Rightarrow> char" where
  "toLowerChar c =
     (let n = (of_char c :: nat)
      in if (65 \<le> n \<and> n \<le> 90) \<or> (192 \<le> n \<and> n \<le> 222 \<and> n \<noteq> 215) then char_of (n + 32) else c)"

definition toLowerCase :: "string \<Rightarrow> string" where
  "toLowerCase s = map toLowerChar s"

definition startsWith :: "string \<Rightarrow> string \<Rightarrow> bool" where
  "startsWith s p = (take (length p) s = p)"

text \<open>
  \<^verbatim>\<open>s.replace(pat, rep)\<close> with a string pattern: only the first occurrence is replaced
  (the replacement strings of the program hold no \<^verbatim>\<open>$\<close> pattern).
\<close>

fun replaceFirst :: "string \<Rightarrow> string \<Rightarrow> string \<Rightarrow> string" where
  "replaceFirst pat rep [] = (if pat = [] then rep else [])"
| "replaceFirst pat rep (c # cs) =
     (if startsWith (c # cs) pat then rep @ drop (length pat) (c # cs)
      else c # replaceFirst pat rep cs)"

text \<open>
  The number of matches of \<^verbatim>\<open>text.match(new RegExp(keyword, 'g'))\<close> for a keyword without
  regular-expression metacharacters: the occurrences of the literal, found left to right,
  each search resuming after the previous match. An empty pattern matches once at every
  position.
\<close>

fun countMatches :: "string \<Rightarrow> string \<Rightarrow> nat" where
  "countMatches kw [] = (if kw = [] then 1 else 0)"
| "countMatches kw (c # cs) =
     (if kw = [] then Suc (countMatches kw cs)
      else if startsWith (c # cs) kw then Suc (countMatches kw (drop (length kw - 1) cs))
      else countMatches kw cs)"

section \<open>The categorizer\<close>

text \<open>The category table of \<^verbatim>\<open>categorizeConversation\<close>, in the order of the object literal.\<close>

definition categories :: "(string \<times> string list) list" where
  "categories =
   [(''bridge provider'', [''bridge'', ''axelar'', ''wormhole'', ''ibc'', ''gravity bridge'', ''stargate'', ''cosmos hub'']),
    (''cache'', [''cache'', ''caching'', ''refresh'', ''reload'', ''clear cache'', ''browser cache'']),
    (''deposit/withdrawal'', [''deposit'', ''withdrawal'', ''withdraw'', ''deposit funds'', ''withdraw funds'', ''binance'', ''coinbase'', ''kucoin'', ''kraken'']),
    (''external team related'', [''starname'', ''stargaze'', ''juno'', ''akash'', ''cosmos'', ''terra'', ''luna'', ''secret'', ''kava'', ''evmos'']),
    (''fe bug'', [''bug'', ''error'', ''broken'', ''not working'', ''issue'', ''problem'', ''frontend'', ''ui bug'', ''interface'']),
    (''general inquiry'', [''how to'', ''what is'', ''explain'', ''help'', ''question'', ''understand'', ''tutorial'', ''guide'']),
    (''glitch/can'' @ [CHR 39] @ ''t reproduce'', [''glitch'', ''weird'', ''strange'', ''can'' @ [CHR 39] @ ''t reproduce'', ''cannot reproduce'', ''intermittent'', ''sometimes works'']),
    (''swaps'', [''swap'', ''swapping'', ''trade'', ''trading'', ''exchange'', ''convert'', ''slippage'', ''pool'']),
    (''ibc relayer'', [''relayer'', ''ibc'', ''timeout'', ''pending'', ''stuck'', ''failed transfer'', ''cross chain'']),
    (''unclear ux'', [''confusing'', ''unclear'', ''difficult'', ''hard to'', ''ux'', ''user experience'', ''design'']),
    (''spam/marketing'', [''marketing'', ''spam'', ''promotion'', ''advertisement'', ''airdrop'', ''free tokens''])]"

text \<open>The inner loop: the score of one category is the sum of its keywords' match counts.\<close>

fun scoreKeywords :: "string \<Rightarrow> string list \<Rightarrow> nat \<Rightarrow> nat" where
  "scoreKeywords text [] score = score"
| "scoreKeywords text (keyword # keywords) score =
     scoreKeywords text keywords (score + countMatches keyword text)"

definition scoresOf :: "string \<Rightarrow> (string \<times> nat) list" where
  "scoresOf text = map (\<lambda>(category, keywords). (category, scoreKeywords text keywords 0)) categories"

text \<open>\<^verbatim>\<open>Math.max(...values)\<close> of a list of naturals (\<^verbatim>\<open>-Infinity\<close> for none, below every score).\<close>

definition mathMax :: "nat list \<Rightarrow> nat" where
  "mathMax xs = fold max xs 0"

text \<open>
  \<^verbatim>\<open>categorizeConversation(conversationText, assignedAgent, customerName)\<close>. The result of
  \<^verbatim>\<open>Array.prototype.find\<close> is returned as it is: \<open>None\<close> stands for \<^verbatim>\<open>undefined\<close>.
\<close>

definition categorizeConversation :: "string \<Rightarrow> jsval \<Rightarrow> jsval \<Rightarrow> string option" where
  "categorizeConversation conversationText assignedAgent customerName =
     (let text = toLowerCase conversationText;
          scores = scoresOf text;
          maxScore = mathMax (map snd scores)
      in if maxScore = 0 then Some ''general inquiry''
         else map_option fst (find (\<lambda>(category, score). score = maxScore) scores))"

section \<open>Further string operations\<close>

definition newline :: char where
  "newline = char_of (10 :: nat)"

definition quoteChar :: char where
  "quoteChar = char_of (34 :: nat)"

text \<open>\<^verbatim>\<open>s.split(sep)\<close> for a one-character separator, and \<^verbatim>\<open>xs.join(sep)\<close> on strings.\<close>

fun splitOn :: "char \<Rightarrow> string \<Rightarrow> string list" where
  "splitOn sep [] = [[]]"
| "splitOn sep (c # cs) =
     (if c = sep then [] # splitOn sep cs
      else (case splitOn sep cs of [] \<Rightarrow> [[c]] | w # ws \<Rightarrow> (c # w) # ws))"

fun joinWith :: "string \<Rightarrow> string list \<Rightarrow> string" where
  "joinWith sep [] = []"
| "joinWith sep [x] = x"
| "joinWith sep (x # y # ys) = x @ sep @ joinWith sep (y # ys)"

text \<open>\<^verbatim>\<open>s.replace(/"/g, '""')\<close>: every double quote is doubled.\<close>

fun doubleQuotes :: "string \<Rightarrow> string" where
  "doubleQuotes [] = []"
| "doubleQuotes (c # cs) = (if c = quoteChar then quoteChar # quoteChar # doubleQuotes cs else c # doubleQuotes cs)"

text \<open>\<^verbatim>\<open>s.replace(/\[USER\]|\[AGENT\]/g, '')\<close>: every occurrence of either tag is removed, left to right.\<close>

fun removeTags :: "string \<Rightarrow> string" where
  "removeTags [] = []"
| "removeTags (c # cs) =
     (if startsWith (c # cs) ''[USER]'' then removeTags (drop 5 cs)
      else if startsWith (c # cs) ''[AGENT]'' then removeTags (drop 6 cs)
      else c # removeTags cs)"

text \<open>
  \<^verbatim>\<open>parseInt\<close> without a radix, on the string that ToString made of its argument: leading
  white space stripped, an optional sign, an optional \<^verbatim>\<open>0x\<close> prefix selecting radix 16,
  then the longest prefix of digits; \<open>None\<close> is \<^verbatim>\<open>NaN\<close> (no digit).
\<close>

definition digitValue :: "char \<Rightarrow> int" where
  "digitValue c =
     (let n = (of_char c :: int)
      in if 48 \<le> n \<and> n \<le> 57 then n - 48
         else if 97 \<le> n \<and> n \<le> 122 then n - 87
         else if 65 \<le> n \<and> n \<le> 90 then n - 55
         else 36)"

definition isDigitOf :: "int \<Rightarrow> char \<Rightarrow> bool" where
  "isDigitOf radix c = (digitValue c < radix)"

fun digitsToInt :: "int \<Rightarrow> string \<Rightarrow> int \<Rightarrow> int" where
  "digitsToInt radix [] acc = acc"
| "digitsToInt radix (c # cs) acc = digitsToInt radix cs (acc * radix + digitValue c)"

definition parseIntString :: "string \<Rightarrow> int option" where
  "parseIntString inputString =
     (let s = trimStart inputString;
          negative = startsWith s ''-'' \<and> s \<noteq> [];
          s1 = (if s \<noteq> [] \<and> (startsWith s ''-'' \<or> startsWith s ''+'') then drop 1 s else s);
          hex = (startsWith s1 ''0x'' \<or> startsWith s1 ''0X'');
          radix = (if hex then 16 else 10);
          s2 = (if hex then drop 2 s1 else s1);
          z = takeWhile (isDigitOf radix) s2
      in if z = [] then None
         else Some ((if negative then - 1 else 1) * digitsToInt radix z 0))"

section \<open>The runtime\<close>

text \<open>
  What the program takes from its platform and from the remote API is a parameter of the
  model: \<open>dateParse\<close> is the time value in milliseconds of \<^verbatim>\<open>new Date(string)\<close>
  (\<open>None\<close> for an invalid date), \<open>toISOString\<close> is \<^verbatim>\<open>Date.prototype.toISOString\<close> on a
  valid time value, \<open>numberToString\<close> is the string that the engine makes of a number
  (\<^verbatim>\<open>Number.prototype.toString\<close>: decimal digits up to \<^verbatim>\<open>1e21\<close>, exponent form from there
  on), \<open>sortArray\<close> is the content that \<^verbatim>\<open>Array.prototype.sort\<close> leaves in an array of
  messages for a comparator (its result in numbers, \<^verbatim>\<open>NaN\<close> read as 0, as the engine reads
  it), and \<open>httpGet\<close> is the response of the API to a GET of an endpoint.
\<close>

record message =
  msg_created_at :: jsval
  msg_createdAt :: jsval
  msg_timestamp :: jsval
  msg_from :: jsval
  msg_type :: jsval
  msg_text :: jsval
  msg_body :: jsval
  msg_content :: jsval

record body =
  body_data :: "message list option"
  body_messages :: "message list option"

text \<open>
  A response: the request failed (it threw), \<^verbatim>\<open>response.data\<close> is falsy, or it is an object
  whose \<^verbatim>\<open>data\<close> and \<^verbatim>\<open>messages\<close> keys hold an array (\<open>Some\<close>) or anything else (\<open>None\<close>).
\<close>

datatype response = RequestFailed | NoData | Data body

record runtime =
  dateParse :: "string \<Rightarrow> int option"
  toISOString :: "int \<Rightarrow> string"
  numberToString :: "int \<Rightarrow> string"
  sortArray :: "(message \<Rightarrow> message \<Rightarrow> int) \<Rightarrow> message list \<Rightarrow> message list"
  httpGet :: "string \<Rightarrow> response"

text \<open>
  The abstract operation ToString (used by template literals, \<^verbatim>\<open>parseInt\<close> and the
  elements of \<^verbatim>\<open>Array.prototype.join\<close>), and the method call \<^verbatim>\<open>v.toString()\<close>, which throws
  a TypeError on \<^verbatim>\<open>undefined\<close> and \<^verbatim>\<open>null\<close>.
\<close>

fun ToString :: "runtime \<Rightarrow> jsval \<Rightarrow> string" where
  "ToString R JUndefined = ''undefined''"
| "ToString R JNull = ''null''"
| "ToString R (JBool b) = (if b then ''true'' else ''false'')"
| "ToString R (JNum n) = numberToString R n"
| "ToString R (JStr s) = s"
| "ToString R JObj = ''[object Object]''"

fun toStringMethod :: "runtime \<Rightarrow> jsval \<Rightarrow> js_error + string" where
  "toStringMethod R JUndefined = Inl TypeError"
| "toStringMethod R JNull = Inl TypeError"
| "toStringMethod R v = Inr (ToString R v)"

definition parseInt :: "runtime \<Rightarrow> jsval \<Rightarrow> int option" where
  "parseInt R v = parseIntString (ToString R v)"

definition timeClip :: "int \<Rightarrow> int option" where
  "timeClip t = (if \<bar>t\<bar> \<le> 8640000000000000 then Some t else None)"

text \<open>The time value of \<^verbatim>\<open>new Date(v)\<close>; \<open>None\<close> is an invalid date.\<close>

fun newDate :: "runtime \<Rightarrow> jsval \<Rightarrow> int option" where
  "newDate R JUndefined = None"
| "newDate R JNull = Some 0"
| "newDate R (JBool b) = Some (if b then 1 else 0)"
| "newDate R (JNum n) = timeClip n"
| "newDate R (JStr s) = dateParse R s"
| "newDate R JObj = dateParse R ''[object Object]''"

section \<open>The data model\<close>

text \<open>
  An object of which only \<^verbatim>\<open>name\<close> is read (assignee, assigned agent, department), and a
  customer. In a conversation such a field is \<open>None\<close> when its value is falsy and \<open>Some\<close>
  of the properties otherwise.
\<close>

record named_obj =
  obj_name :: jsval

record customer_obj =
  customer_email :: jsval
  customer_name :: jsval

text \<open>
  A raw conversation. \<open>conv_messages\<close> is \<open>Some\<close> when \<^verbatim>\<open>conversation.messages\<close> is an
  array; \<open>conv_keyCount\<close> is \<^verbatim>\<open>Object.keys(conversation).length\<close>.
\<close>

record conversation =
  conv_id :: jsval
  conv_created_at :: jsval
  conv_createdAt :: jsval
  conv_updated_at :: jsval
  conv_updatedAt :: jsval
  conv_status :: jsval
  conv_customer :: "customer_obj option"
  conv_assigned_agent :: "named_obj option"
  conv_assignee :: "named_obj option"
  conv_department :: "named_obj option"
  conv_messages :: "message list option"
  conv_keyCount :: nat

record exportedChat =
  chatId :: string
  chat_organizationId :: string
  createdAt :: jsval
  updatedAt :: jsval
  status :: jsval
  customerEmail :: jsval
  customerName :: jsval
  assignedAgent :: jsval
  department :: jsval
  messageCount :: nat
  conversationText :: string
  hasMessages :: bool

text \<open>
  The cache and the export output. The wall-clock fields (\<^verbatim>\<open>lastUpdated\<close>,
  \<^verbatim>\<open>lastProcessedTimestamp\<close>, \<^verbatim>\<open>exportedAt\<close>) are left out: nothing reads them.
\<close>

record cache =
  lastProcessedBatch :: nat
  totalBatches :: nat
  chats :: "exportedChat list"
  meta_organizationId :: string
  meta_departmentFilter :: "string option"

record exportOutput =
  out_organizationId :: string
  out_departmentFilter :: "string option"
  out_fromDate :: string
  totalConversationsFound :: nat
  totalConversationsAfterFiltering :: nat
  newChatsProcessed :: nat
  totalExportedChats :: nat
  out_chats :: "exportedChat list"

text \<open>The fields of the exporter object that the methods read.\<close>

record exporter =
  organizationId :: string
  fromDate :: string
  outputFile :: string
  cacheFile :: string
  departmentFilter :: "string option"

section \<open>Cache operations\<close>

text \<open>
  \<^verbatim>\<open>isConversationCached\<close>: \<^verbatim>\<open>cache.chats.some(chat => chat.chatId === conversationId.toString())\<close>.
  The callback runs only when there is a chat, and then its \<^verbatim>\<open>toString()\<close> throws on a
  missing id.
\<close>

definition isConversationCached :: "runtime \<Rightarrow> cache \<Rightarrow> jsval \<Rightarrow> js_error + bool" where
  "isConversationCached R c conversationId =
     (if chats c = [] then Inr False
      else (case toStringMethod R conversationId of
              Inl e \<Rightarrow> Inl e
            | Inr s \<Rightarrow> Inr (s \<in> set (map chatId (chats c)))))"

text \<open>The cache that \<^verbatim>\<open>loadCache\<close> returns when there is no readable cache file.\<close>

definition freshCache :: "exporter \<Rightarrow> cache" where
  "freshCache E =
     \<lparr>lastProcessedBatch = 0, totalBatches = 0, chats = [],
      meta_organizationId = organizationId E, meta_departmentFilter = departmentFilter E\<rparr>"

text \<open>\<^verbatim>\<open>mergeWithCache\<close> (no method of the class calls it).\<close>

definition mergeWithCache :: "exportedChat list \<Rightarrow> exportedChat list \<Rightarrow> exportedChat list" where
  "mergeWithCache cachedChats newChats =
     (let existingIds = set (map chatId cachedChats);
          uniqueNewChats = filter (\<lambda>chat. chatId chat \<notin> existingIds) newChats
      in cachedChats @ uniqueNewChats)"

section \<open>The department filter\<close>

text \<open>\<^verbatim>\<open>o?.name\<close> on an optional object.\<close>

definition nameOf :: "named_obj option \<Rightarrow> jsval" where
  "nameOf ob = (case ob of None \<Rightarrow> JUndefined | Some n \<Rightarrow> obj_name n)"

text \<open>
  The first half of the filter callback: the assignment to \<^verbatim>\<open>conversation.department\<close>. It
  is made on the conversation object itself, so the callback's caller sees it.
\<close>

definition backfillDepartment :: "conversation \<Rightarrow> conversation" where
  "backfillDepartment conversation =
     (if conv_department conversation = None then
        (if conv_assignee conversation \<noteq> None \<or> conv_assigned_agent conversation \<noteq> None then
           (let assigneeName = js_or (nameOf (conv_assignee conversation)) (nameOf (conv_assigned_agent conversation))
            in if assigneeName = JStr ''Squid Team''
               then conversation\<lparr>conv_department := Some \<lparr>obj_name = JStr ''SQUID''\<rparr>\<rparr>
               else conversation\<lparr>conv_department := Some \<lparr>obj_name = JStr ''OSL''\<rparr>\<rparr>)
         else conversation)
      else conversation)"

text \<open>
  The second half: the callback's return value, on the conversation after the assignment.
  \<^verbatim>\<open>this.departmentFilter\<close> is truthy when it is a non-empty string.
\<close>

definition passesDepartment :: "exporter \<Rightarrow> conversation \<Rightarrow> bool" where
  "passesDepartment E conversation =
     (case departmentFilter E of
        None \<Rightarrow> True
      | Some f \<Rightarrow> if f \<noteq> [] \<and> nameOf (conv_department conversation) \<noteq> JStr f then False else True)"

text \<open>
  \<^verbatim>\<open>filterConversationsByDepartment\<close>: the result of \<^verbatim>\<open>conversations.filter(callback)\<close>,
  paired with the input array as the callback leaves it.
\<close>

fun filterConversationsByDepartment ::
  "exporter \<Rightarrow> conversation list \<Rightarrow> conversation list \<times> conversation list" where
  "filterConversationsByDepartment E [] = ([], [])"
| "filterConversationsByDepartment E (conversation # rest) =
     (let conversation' = backfillDepartment conversation;
          (filteredConversations, rest') = filterConversationsByDepartment E rest
      in (if passesDepartment E conversation' then conversation' # filteredConversations
          else filteredConversations,
          conversation' # rest'))"

section \<open>The message fetcher\<close>

definition possibleEndpoints :: "runtime \<Rightarrow> jsval \<Rightarrow> string list" where
  "possibleEndpoints R chat_id =
     (let cid = ToString R chat_id
      in [''/v1/chats/'' @ cid @ ''/messages'',
          ''/chats/'' @ cid @ ''/messages'',
          ''/v1/conversations/'' @ cid @ ''/messages'',
          ''/conversations/'' @ cid @ ''/messages'',
          ''/v1/chats/'' @ cid])"

text \<open>
  The loop over the endpoints. A failed request is caught and the loop continues; a
  response with an array under \<^verbatim>\<open>data\<close>, else under \<^verbatim>\<open>messages\<close>, returns
  \<^verbatim>\<open>slice(0, 100)\<close> of it; after the last endpoint the result is the empty array.
\<close>

fun tryEndpoints :: "(string \<Rightarrow> response) \<Rightarrow> string list \<Rightarrow> message list" where
  "tryEndpoints get [] = []"
| "tryEndpoints get (endpoint # rest) =
     (case get endpoint of
        RequestFailed \<Rightarrow> tryEndpoints get rest
      | NoData \<Rightarrow> tryEndpoints get rest
      | Data b \<Rightarrow>
          (case body_data b of
             Some arr \<Rightarrow> take 100 arr
           | None \<Rightarrow>
               (case body_messages b of
                  Some arr \<Rightarrow> take 100 arr
                | None \<Rightarrow> tryEndpoints get rest)))"

definition getChatMessages :: "runtime \<Rightarrow> jsval \<Rightarrow> message list" where
  "getChatMessages R chat_id = tryEndpoints (httpGet R) (possibleEndpoints R chat_id)"

section \<open>The conversation formatter\<close>

text \<open>
  The comparator of the sort, \<^verbatim>\<open>aTime - bTime\<close>, as the engine reads it: a \<^verbatim>\<open>NaN\<close>
  difference (an invalid date on either side) counts as 0 in \<^verbatim>\<open>Array.prototype.sort\<close>.
\<close>

definition messageTime :: "runtime \<Rightarrow> message \<Rightarrow> int option" where
  "messageTime R m = newDate R (js_or (js_or (msg_created_at m) (msg_createdAt m)) (msg_timestamp m))"

definition compareMessages :: "runtime \<Rightarrow> message \<Rightarrow> message \<Rightarrow> int" where
  "compareMessages R a b =
     (case messageTime R a of
        None \<Rightarrow> 0
      | Some aTime \<Rightarrow> (case messageTime R b of None \<Rightarrow> 0 | Some bTime \<Rightarrow> aTime - bTime))"

text \<open>\<^verbatim>\<open>v.trim()\<close>: a TypeError on a value that is no string.\<close>

fun trimMethod :: "jsval \<Rightarrow> js_error + string" where
  "trimMethod (JStr s) = Inr (trim s)"
| "trimMethod v = Inl TypeError"

text \<open>
  The loop over the sorted messages, with \<^verbatim>\<open>conversationText\<close> as the accumulator \<open>convText\<close>. The
  \<^verbatim>\<open>timestamp\<close> it computes first is caught when it throws and never read.
\<close>

fun formatMessages :: "message list \<Rightarrow> string \<Rightarrow> js_error + string" where
  "formatMessages [] convText = Inr convText"
| "formatMessages (message # rest) convText =
     (let messageTag = (if msg_from message = JStr ''agent'' then ''AGENT'' else ''USER'')
      in if msg_type message = JStr ''tech'' then formatMessages rest convText
         else (let messageContent = js_or (js_or (js_or (msg_text message) (msg_body message)) (msg_content message)) (JStr [])
               in case trimMethod messageContent of
                    Inl e \<Rightarrow> Inl e
                  | Inr trimmed \<Rightarrow>
                      formatMessages rest
                        (if trimmed \<noteq> [] then convText @ ''['' @ messageTag @ ''] '' @ trimmed @ [newline]
                         else convText)))"

text \<open>\<^verbatim>\<open>conversation.customer?.email || null\<close> and the like.\<close>

definition customerEmailOf :: "conversation \<Rightarrow> jsval" where
  "customerEmailOf conversation =
     js_or (case conv_customer conversation of None \<Rightarrow> JUndefined | Some c \<Rightarrow> customer_email c) JNull"

definition customerNameOf :: "conversation \<Rightarrow> jsval" where
  "customerNameOf conversation =
     js_or (case conv_customer conversation of None \<Rightarrow> JUndefined | Some c \<Rightarrow> customer_name c) JNull"

definition assignedAgentOf :: "conversation \<Rightarrow> jsval" where
  "assignedAgentOf conversation =
     js_or (js_or (nameOf (conv_assigned_agent conversation)) (nameOf (conv_assignee conversation))) JNull"

text \<open>\<^verbatim>\<open>formatConversationMetadata\<close>; \<^verbatim>\<open>conversation.id.toString()\<close> may throw.\<close>

definition formatConversationMetadata :: "runtime \<Rightarrow> exporter \<Rightarrow> conversation \<Rightarrow> js_error + exportedChat" where
  "formatConversationMetadata R E conversation =
     (case toStringMethod R (conv_id conversation) of
        Inl e \<Rightarrow> Inl e
      | Inr cid \<Rightarrow>
          Inr \<lparr>chatId = cid,
               chat_organizationId = organizationId E,
               createdAt = js_or (js_or (conv_created_at conversation) (conv_createdAt conversation)) JNull,
               updatedAt = js_or (js_or (conv_updated_at conversation) (conv_updatedAt conversation)) JNull,
               status = conv_status conversation,
               customerEmail = customerEmailOf conversation,
               customerName = customerNameOf conversation,
               assignedAgent = assignedAgentOf conversation,
               department = js_or (nameOf (conv_department conversation)) JNull,
               messageCount = 0,
               conversationText = [],
               hasMessages = False\<rparr>)"

text \<open>
  \<^verbatim>\<open>formatConversationWithMessages(conversation, messages)\<close>. The sort works on the array
  it is given, so the function returns, beside its result or the error it throws, the
  content of that array after the call.
\<close>

definition formatConversationWithMessages ::
  "runtime \<Rightarrow> exporter \<Rightarrow> conversation \<Rightarrow> message list \<Rightarrow> (js_error + exportedChat) \<times> message list" where
  "formatConversationWithMessages R E conversation messages =
     (if length messages = 0 then (formatConversationMetadata R E conversation, messages)
      else
        (let messages' = sortArray R (compareMessages R) messages
         in (case formatMessages messages' [] of
               Inl e \<Rightarrow> Inl e
             | Inr convText \<Rightarrow>
                 (case toStringMethod R (conv_id conversation) of
                    Inl e \<Rightarrow> Inl e
                  | Inr cid \<Rightarrow>
                      Inr \<lparr>chatId = cid,
                           chat_organizationId = organizationId E,
                           createdAt = js_or (js_or (conv_created_at conversation) (conv_createdAt conversation)) JNull,
                           updatedAt = js_or (js_or (conv_updated_at conversation) (conv_updatedAt conversation)) JNull,
                           status = conv_status conversation,
                           customerEmail = customerEmailOf conversation,
                           customerName = customerNameOf conversation,
                           assignedAgent = assignedAgentOf conversation,
                           department = js_or (nameOf (conv_department conversation)) JNull,
                           messageCount = length messages',
                           conversationText = trim convText,
                           hasMessages = True\<rparr>),
             messages')))"

text \<open>
  \<^verbatim>\<open>processConversation\<close>: its \<^verbatim>\<open>try\<close>/\<^verbatim>\<open>catch\<close> turns an error into \<^verbatim>\<open>null\<close> (\<open>None\<close>).
  Inline messages are handed to the formatter as the conversation's own array, so the
  conversation comes back with the array as the formatter left it.
\<close>

definition catchNull :: "js_error + 'a \<Rightarrow> 'a option" where
  "catchNull r = (case r of Inl e \<Rightarrow> None | Inr v \<Rightarrow> Some v)"

definition processConversation ::
  "runtime \<Rightarrow> exporter \<Rightarrow> conversation \<Rightarrow> exportedChat option \<times> conversation" where
  "processConversation R E conversation =
     (if conv_keyCount conversation > 0 then
           (case conv_messages conversation of
              Some inline \<Rightarrow>
                (let (r, inline') = formatConversationWithMessages R E conversation inline
                 in (catchNull r, conversation\<lparr>conv_messages := Some inline'\<rparr>))
            | None \<Rightarrow>
                (let messages = getChatMessages R (conv_id conversation)
                 in if length messages > 0
                    then (catchNull (fst (formatConversationWithMessages R E conversation messages)), conversation)
                    else (catchNull (formatConversationMetadata R E conversation), conversation)))
      else (None, conversation))"

section \<open>The CSV summary\<close>

text \<open>An element of \<^verbatim>\<open>row.join(',')\<close>: \<^verbatim>\<open>undefined\<close> and \<^verbatim>\<open>null\<close> are joined as the empty string.\<close>

definition joinElement :: "runtime \<Rightarrow> jsval \<Rightarrow> string" where
  "joinElement R v = (if v = JUndefined \<or> v = JNull then [] else ToString R v)"

text \<open>
  The quoted fields: \<^verbatim>\<open>(v || '').replace(/"/g, '""')\<close> between double quotes: a TypeError when \<open>v\<close> is truthy and no string.
\<close>

definition quoted :: "string \<Rightarrow> string" where
  "quoted s = [quoteChar] @ doubleQuotes s @ [quoteChar]"

definition quotedField :: "jsval \<Rightarrow> js_error + string" where
  "quotedField v = (case js_or v (JStr []) of JStr s \<Rightarrow> Inr (quoted s) | _ \<Rightarrow> Inl TypeError)"

text \<open>
  \<^verbatim>\<open>new Date(parseInt(chat.createdAt) * 1000).toISOString().split('T')[0]\<close>: a RangeError on
  an invalid date.
\<close>

definition createdDate :: "runtime \<Rightarrow> jsval \<Rightarrow> js_error + string" where
  "createdDate R v =
     (case parseInt R v of
        None \<Rightarrow> Inl RangeError
      | Some n \<Rightarrow>
          (case timeClip (n * 1000) of
             None \<Rightarrow> Inl RangeError
           | Some t \<Rightarrow> Inr (case splitOn (CHR ''T'') (toISOString R t) of [] \<Rightarrow> [] | d # _ \<Rightarrow> d)))"

definition csvHeader :: string where
  "csvHeader = joinWith '','' [''Chat ID'', ''Created Date'', ''Status'', ''Customer Name'', ''Customer Email'',
     ''Assigned Agent'', ''Department'', ''Message Count'', ''Category'', ''First User Message'',
     ''Last Agent Response'', ''Conversation Summary'']"

definition csvRow :: "runtime \<Rightarrow> exportedChat \<Rightarrow> js_error + string" where
  "csvRow R chat =
     (let messages = filter (\<lambda>msg. trim msg \<noteq> []) (splitOn newline (conversationText chat));
          firstUserMessage =
            (case find (\<lambda>msg. startsWith msg ''[USER]'') messages of
               None \<Rightarrow> []
             | Some msg \<Rightarrow> trim (replaceFirst ''[USER]'' [] msg));
          agentMessages = filter (\<lambda>msg. startsWith msg ''[AGENT]'') messages;
          lastAgentResponse =
            (if length agentMessages > 0 then trim (replaceFirst ''[AGENT]'' [] (last agentMessages)) else []);
          summary = take 200 (trim (removeTags (conversationText chat)));
          category = categorizeConversation (conversationText chat) (assignedAgent chat) (customerName chat)
      in case createdDate R (createdAt chat) of
           Inl e \<Rightarrow> Inl e
         | Inr dateOnly \<Rightarrow>
        (case quotedField (customerName chat) of
           Inl e \<Rightarrow> Inl e
         | Inr qName \<Rightarrow>
        (case quotedField (customerEmail chat) of
           Inl e \<Rightarrow> Inl e
         | Inr qEmail \<Rightarrow>
        (case quotedField (assignedAgent chat) of
           Inl e \<Rightarrow> Inl e
         | Inr qAgent \<Rightarrow>
             Inr (joinWith '',''
                   [chatId chat,
                    dateOnly,
                    joinElement R (status chat),
                    qName,
                    qEmail,
                    qAgent,
                    joinElement R (department chat),
                    numberToString R (int (messageCount chat)),
                    (case category of None \<Rightarrow> [] | Some c \<Rightarrow> c),
                    quoted (take 100 firstUserMessage),
                    quoted (take 100 lastAgentResponse),
                    quoted summary])))))"

fun csvRows :: "runtime \<Rightarrow> exportedChat list \<Rightarrow> string list \<Rightarrow> js_error + string list" where
  "csvRows R [] rows = Inr rows"
| "csvRows R (chat # rest) rows =
     (case csvRow R chat of Inl e \<Rightarrow> Inl e | Inr row \<Rightarrow> csvRows R rest (rows @ [row]))"

definition generateCSVSummary :: "runtime \<Rightarrow> exportOutput \<Rightarrow> js_error + string" where
  "generateCSVSummary R exportData =
     (case csvRows R (out_chats exportData) [csvHeader] of
        Inl e \<Rightarrow> Inl e
      | Inr rows \<Rightarrow> Inr (joinWith [newline] rows))"

section \<open>The export run\<close>

text \<open>
  A run starts from the cache that \<^verbatim>\<open>loadCache\<close> returned and the conversations that
  \<^verbatim>\<open>getConversations\<close> returned. It leaves a sequence of file writes, in order, each the
  path and the value that was serialised, and ends normally or in \<^verbatim>\<open>process.exit(1)\<close>.
  File writes themselves are taken to succeed.
\<close>

datatype fileContent = JsonExport exportOutput | CsvSummary string | CacheJson cache

datatype outcome = Completed | ExitFailure

record runState =
  run_cache :: cache
  run_writes :: "(string \<times> fileContent) list"
  run_newChatsCount :: nat

record runResult =
  res_outcome :: outcome
  res_writes :: "(string \<times> fileContent) list"
  res_cache :: cache

definition batchSize :: nat where
  "batchSize = 10"

text \<open>\<^verbatim>\<open>xs.slice(i, j)\<close> for \<open>i \<le> j\<close>, and \<^verbatim>\<open>Math.ceil(n / d)\<close>.\<close>

definition slice :: "nat \<Rightarrow> nat \<Rightarrow> 'a list \<Rightarrow> 'a list" where
  "slice i j xs = take (j - i) (drop i xs)"

definition ceilDiv :: "nat \<Rightarrow> nat \<Rightarrow> nat" where
  "ceilDiv n d = (n + d - 1) div d"

text \<open>
  \<^verbatim>\<open>filteredConversations.filter(c => !this.isConversationCached(cache, c.id))\<close>; an
  error thrown by the callback ends the filter.
\<close>

fun filterUncached :: "runtime \<Rightarrow> cache \<Rightarrow> conversation list \<Rightarrow> js_error + conversation list" where
  "filterUncached R c [] = Inr []"
| "filterUncached R c (conversation # rest) =
     (case isConversationCached R c (conv_id conversation) of
        Inl e \<Rightarrow> Inl e
      | Inr cached \<Rightarrow>
          (case filterUncached R c rest of
             Inl e \<Rightarrow> Inl e
           | Inr uncached \<Rightarrow> Inr (if \<not> cached then conversation # uncached else uncached)))"

text \<open>The inner loop of a batch, with \<^verbatim>\<open>batchResults\<close> as accumulator.\<close>

fun processBatch :: "runtime \<Rightarrow> exporter \<Rightarrow> conversation list \<Rightarrow> exportedChat list \<Rightarrow> exportedChat list" where
  "processBatch R E [] batchResults = batchResults"
| "processBatch R E (conversation # rest) batchResults =
     (case fst (processConversation R E conversation) of
        None \<Rightarrow> processBatch R E rest batchResults
      | Some processedChat \<Rightarrow> processBatch R E rest (batchResults @ [processedChat]))"

text \<open>
  The end of a batch: its results are pushed onto \<^verbatim>\<open>cache.chats\<close> and the cache is saved,
  when there is a result.
\<close>

definition appendBatch :: "exporter \<Rightarrow> nat \<Rightarrow> nat \<Rightarrow> exportedChat list \<Rightarrow> runState \<Rightarrow> runState" where
  "appendBatch E i n batchResults st =
     (if length batchResults > 0 then
        (let cache' = (run_cache st)\<lparr>chats := chats (run_cache st) @ batchResults,
                                      lastProcessedBatch := i div batchSize + 1,
                                      totalBatches := ceilDiv n batchSize\<rparr>
         in st\<lparr>run_cache := cache',
               run_writes := run_writes st @ [(cacheFile E, CacheJson cache')],
               run_newChatsCount := run_newChatsCount st + length batchResults\<rparr>)
      else st)"

text \<open>The outer loop \<^verbatim>\<open>for (let i = 0; i < uncachedConversations.length; i += batchSize)\<close>.\<close>

function batchLoop :: "runtime \<Rightarrow> exporter \<Rightarrow> conversation list \<Rightarrow> nat \<Rightarrow> runState \<Rightarrow> runState" where
  "batchLoop R E uncachedConversations i st =
     (if i < length uncachedConversations then
        (let batch = slice i (i + batchSize) uncachedConversations;
             batchResults = processBatch R E batch []
         in batchLoop R E uncachedConversations (i + batchSize)
              (appendBatch E i (length uncachedConversations) batchResults st))
      else st)"
  by pat_completeness auto
termination
  by (relation "measure (\<lambda>(R, E, uncachedConversations, i, st). length uncachedConversations - i)")
     (auto simp: batchSize_def)

declare batchLoop.simps [simp del]

text \<open>
  The date filter of the final export. \<^verbatim>\<open>fromDateTimestamp\<close> is the time value of
  \<^verbatim>\<open>new Date(this.fromDate)\<close> divided by 1000, so \<^verbatim>\<open>chatCreatedAt >= fromDateTimestamp\<close>
  holds when neither side is \<^verbatim>\<open>NaN\<close> and 1000 times the one is at least the time value.
\<close>

definition fromDateMillis :: "runtime \<Rightarrow> exporter \<Rightarrow> int option" where
  "fromDateMillis R E = newDate R (JStr (fromDate E))"

definition notBeforeFromDate :: "runtime \<Rightarrow> exporter \<Rightarrow> exportedChat \<Rightarrow> bool" where
  "notBeforeFromDate R E chat =
     (case parseInt R (createdAt chat) of
        None \<Rightarrow> False
      | Some chatCreatedAt \<Rightarrow>
          (case fromDateMillis R E of None \<Rightarrow> False | Some ms \<Rightarrow> chatCreatedAt * 1000 \<ge> ms))"

definition csvFileName :: "string \<Rightarrow> string" where
  "csvFileName outputFileName = replaceFirst ''.json'' ''_summary.csv'' outputFileName"

definition makeOutput ::
  "exporter \<Rightarrow> nat \<Rightarrow> nat \<Rightarrow> nat \<Rightarrow> exportedChat list \<Rightarrow> exportOutput" where
  "makeOutput E found afterFiltering newChats exported =
     \<lparr>out_organizationId = organizationId E,
      out_departmentFilter = departmentFilter E,
      out_fromDate = fromDate E,
      totalConversationsFound = found,
      totalConversationsAfterFiltering = afterFiltering,
      newChatsProcessed = newChats,
      totalExportedChats = length exported,
      out_chats = exported\<rparr>"

text \<open>\<^verbatim>\<open>export()\<close>, from the loaded cache and the fetched conversations on.\<close>

definition export :: "runtime \<Rightarrow> exporter \<Rightarrow> cache \<Rightarrow> conversation list \<Rightarrow> runResult" where
  "export R E cache0 conversations =
     (if length conversations = 0
      then \<lparr>res_outcome = Completed, res_writes = [], res_cache = cache0\<rparr>
      else
        (let filteredConversations = fst (filterConversationsByDepartment E conversations)
         in if length filteredConversations = 0
            then \<lparr>res_outcome = Completed, res_writes = [], res_cache = cache0\<rparr>
            else
              (case filterUncached R cache0 filteredConversations of
                 Inl e \<Rightarrow> \<lparr>res_outcome = ExitFailure, res_writes = [], res_cache = cache0\<rparr>
               | Inr uncachedConversations \<Rightarrow>
                   if length uncachedConversations = 0
                   then \<lparr>res_outcome = Completed,
                         res_writes =
                           [(outputFile E,
                             JsonExport (makeOutput E (length conversations) (length filteredConversations) 0 (chats cache0)))],
                         res_cache = cache0\<rparr>
                   else
                     (let st = batchLoop R E uncachedConversations 0
                                 \<lparr>run_cache = cache0, run_writes = [], run_newChatsCount = 0\<rparr>;
                          filteredCachedChats = filter (notBeforeFromDate R E) (chats (run_cache st));
                          output = makeOutput E (length conversations) (length filteredConversations)
                                     (run_newChatsCount st) filteredCachedChats;
                          written = run_writes st @ [(outputFile E, JsonExport output)]
                      in case generateCSVSummary R output of
                           Inl e \<Rightarrow> \<lparr>res_outcome = ExitFailure, res_writes = written, res_cache = run_cache st\<rparr>
                         | Inr csvContent \<Rightarrow>
                             \<lparr>res_outcome = Completed,
                              res_writes = written @ [(csvFileName (outputFile E), CsvSummary csvContent)],
                              res_cache = run_cache st\<rparr>))))"

section \<open>What the engine's sort guarantees\<close>

text \<open>
  \<^verbatim>\<open>Array.prototype.sort\<close> rearranges the elements of the array and is stable. Where the
  comparator orders the elements like a key does (on every pair of elements the sign of
  its result is the sign of the difference of their keys), the array is left in the one
  stable arrangement in ascending order of the key, which is \<open>sort_key\<close> of the
  library. Where no key fits (for the comparator of the formatter: valid and invalid
  dates mixed), the engine decides the order, and nothing but the rearrangement is
  assumed.
\<close>

definition conformingSort :: "runtime \<Rightarrow> bool" where
  "conformingSort R =
     (\<forall>compare xs.
        mset (sortArray R compare xs) = mset xs
        \<and> (\<forall>key :: message \<Rightarrow> int.
              (\<forall>a \<in> set xs. \<forall>b \<in> set xs. sgn (compare a b) = sgn (key a - key b))
              \<longrightarrow> sortArray R compare xs = sort_key key xs))"

text \<open>
  The time by which the specification sorts: that of the first present one of the time
  stamp fields \<^verbatim>\<open>created_at\<close>, \<^verbatim>\<open>createdAt\<close>, \<^verbatim>\<open>timestamp\<close>; \<open>spec_key\<close> is that time as a
  sort key, for messages that have one.
\<close>

definition spec_time :: "runtime \<Rightarrow> message \<Rightarrow> int option" where
  "spec_time R m =
     newDate R (if truthy (msg_created_at m) then msg_created_at m
                else if truthy (msg_createdAt m) then msg_createdAt m
                else msg_timestamp m)"

definition spec_key :: "runtime \<Rightarrow> message \<Rightarrow> int" where
  "spec_key R m = (case spec_time R m of None \<Rightarrow> 0 | Some t \<Rightarrow> t)"

text \<open>
  The comparator by which the specification sorts: the difference of the two times, and
  0 (the engine's reading of \<^verbatim>\<open>NaN\<close>) when either message has no valid time.
\<close>

definition spec_compare :: "runtime \<Rightarrow> message \<Rightarrow> message \<Rightarrow> int" where
  "spec_compare R a b =
     (case spec_time R a of
        None \<Rightarrow> 0
      | Some s \<Rightarrow> (case spec_time R b of None \<Rightarrow> 0 | Some t \<Rightarrow> s - t))"

section \<open>The transcript, as the specification words it\<close>

text \<open>
  The specification describes the transcript without the loop: the technical messages
  are skipped, each remaining message with a non-empty trimmed body (the first truthy
  one of \<^verbatim>\<open>text\<close>, \<^verbatim>\<open>body\<close>, \<^verbatim>\<open>content\<close>) gives the line
  \<^verbatim>\<open>[TAG] trimmed-body\<close> and a newline, the tag is AGENT when \<^verbatim>\<open>from\<close> is \<^verbatim>\<open>'agent'\<close> and
  USER otherwise, and the trailing white space of the whole is trimmed. These definitions
  follow those words; the theorems compare them with \<open>formatMessages\<close>.
\<close>

definition isTech :: "message \<Rightarrow> bool" where
  "isTech m = (msg_type m = JStr ''tech'')"

definition spec_content :: "message \<Rightarrow> jsval" where
  "spec_content m =
     (if truthy (msg_text m) then msg_text m
      else if truthy (msg_body m) then msg_body m
      else if truthy (msg_content m) then msg_content m
      else JStr [])"

definition bodyOf :: "message \<Rightarrow> string" where
  "bodyOf m = (case spec_content m of JStr s \<Rightarrow> trim s | _ \<Rightarrow> [])"

definition tagOf :: "message \<Rightarrow> string" where
  "tagOf m = (if msg_from m = JStr ''agent'' then ''AGENT'' else ''USER'')"

definition spec_line :: "message \<Rightarrow> string" where
  "spec_line m = ''['' @ tagOf m @ ''] '' @ bodyOf m @ [newline]"

definition spec_transcript :: "message list \<Rightarrow> string" where
  "spec_transcript ms =
     trimEnd (concat (map spec_line (filter (\<lambda>m. \<not> isTech m \<and> bodyOf m \<noteq> []) ms)))"

text \<open>
  The array that a response offers: the one under \<^verbatim>\<open>data\<close>, else the one under
  \<^verbatim>\<open>messages\<close>; none for a failed request or a body without either.
\<close>

definition responseArray :: "response \<Rightarrow> message list option" where
  "responseArray r =
     (case r of
        Data b \<Rightarrow> (case body_data b of Some arr \<Rightarrow> Some arr | None \<Rightarrow> body_messages b)
      | _ \<Rightarrow> None)"

text \<open>
  The department filter in the specification's words: a conversation is kept when no
  filter is set or its department name is the filter.
\<close>

definition spec_keeps :: "exporter \<Rightarrow> conversation \<Rightarrow> bool" where
  "spec_keeps E c =
     (case departmentFilter E of
        None \<Rightarrow> True
      | Some f \<Rightarrow> f = [] \<or> nameOf (conv_department c) = JStr f)"

text \<open>The content of a message is a string, or none of its three keys is truthy.\<close>

definition hasStringBody :: "message \<Rightarrow> bool" where
  "hasStringBody m = (case spec_content m of JStr s \<Rightarrow> True | _ \<Rightarrow> False)"

section \<open>Example inputs\<close>

text \<open>A message and a conversation with no key set, from which the examples are built.\<close>

definition emptyMessage :: message where
  "emptyMessage =
     \<lparr>msg_created_at = JUndefined, msg_createdAt = JUndefined, msg_timestamp = JUndefined,
      msg_from = JUndefined, msg_type = JUndefined, msg_text = JUndefined,
      msg_body = JUndefined, msg_content = JUndefined\<rparr>"

definition emptyConversation :: conversation where
  "emptyConversation =
     \<lparr>conv_id = JUndefined, conv_created_at = JUndefined, conv_createdAt = JUndefined,
      conv_updated_at = JUndefined, conv_updatedAt = JUndefined, conv_status = JUndefined,
      conv_customer = None, conv_assigned_agent = None, conv_assignee = None,
      conv_department = None, conv_messages = None, conv_keyCount = 0\<rparr>"

text \<open>The messages \<^verbatim>\<open>{from:'customer',text:'hi'}\<close> and \<^verbatim>\<open>{from:'agent',text:'hello'}\<close>.\<close>

definition customerHi :: message where
  "customerHi = emptyMessage\<lparr>msg_from := JStr ''customer'', msg_text := JStr ''hi''\<rparr>"

definition agentHello :: message where
  "agentHello = emptyMessage\<lparr>msg_from := JStr ''agent'', msg_text := JStr ''hello''\<rparr>"


definition lateReply :: message where
  "lateReply = emptyMessage\<lparr>msg_created_at := JNum 2000, msg_timestamp := JNum 5,
                              msg_from := JStr ''agent'', msg_text := JStr ''done''\<rparr>"

definition earlyQuestion :: message where
  "earlyQuestion = emptyMessage\<lparr>msg_createdAt := JNum 1000, msg_timestamp := JNum 9000,
                                 msg_from := JStr ''customer'', msg_text := JStr ''help''\<rparr>"

text \<open>
  The runtime of the examples. It prints a number in decimal digits, which is what
  \<^verbatim>\<open>Number.prototype.toString\<close> gives for an integer below \<^verbatim>\<open>1e21\<close> in magnitude, as all
  numbers of the examples are. It sorts by stable insertion from the right, which
  conforms (\<open>insertionSort_conforms\<close> below): on the arrays of the examples, whose
  messages all have a valid time or all have none, it leaves what every conforming engine
  leaves.
\<close>

definition digitChar :: "int \<Rightarrow> char" where
  "digitChar d = char_of (48 + d)"

function decimalDigits :: "int \<Rightarrow> string" where
  "decimalDigits n = (if n < 10 then [digitChar n] else decimalDigits (n div 10) @ [digitChar (n mod 10)])"
  by pat_completeness auto
termination
  by (relation "measure nat") auto

declare decimalDigits.simps [simp del]

definition decimalString :: "int \<Rightarrow> string" where
  "decimalString i = (if i < 0 then CHR ''-'' # decimalDigits (- i) else decimalDigits i)"

fun insertSorted :: "('a \<Rightarrow> 'a \<Rightarrow> int) \<Rightarrow> 'a \<Rightarrow> 'a list \<Rightarrow> 'a list" where
  "insertSorted compare x [] = [x]"
| "insertSorted compare x (y # ys) =
     (if compare x y > 0 then y # insertSorted compare x ys else x # y # ys)"

definition insertionSort :: "('a \<Rightarrow> 'a \<Rightarrow> int) \<Rightarrow> 'a list \<Rightarrow> 'a list" where
  "insertionSort compare xs = foldr (insertSorted compare) xs []"

text \<open>
  A runtime whose API fails every request, an exporter with the default file names and
  the department OSL, and a conversation of 2 January 2024 with three keys.
\<close>

definition offlineRuntime :: runtime where
  "offlineRuntime =
     \<lparr>dateParse = (\<lambda>s. if s = ''2024-01-01'' then Some 1704067200000 else None),
      toISOString = (\<lambda>t. if t = 1704153600000 then ''2024-01-02T00:00:00.000Z'' else ''1970-01-01T00:00:00.000Z''),
      numberToString = decimalString,
      sortArray = insertionSort,
      httpGet = (\<lambda>endpoint. RequestFailed)\<rparr>"

definition exporterOSL :: exporter where
  "exporterOSL =
     \<lparr>organizationId = ''OSL'', fromDate = ''2024-01-01'', outputFile = ''exported_chats.json'',
      cacheFile = ''chat_cache.json'', departmentFilter = Some ''OSL''\<rparr>"

definition conversation7 :: conversation where
  "conversation7 =
     emptyConversation\<lparr>conv_id := JNum 7, conv_createdAt := JNum 1704153600,
                        conv_status := JStr ''closed'', conv_keyCount := 3\<rparr>"

text \<open>
  Conversations 7 and 8 with the assignee Bob, conversation 9 with the assigned agent
  Squid Team, and the chats that the exporter makes of 7 and 8 when the API has no
  messages.
\<close>

definition conversation7Bob :: conversation where
  "conversation7Bob = conversation7\<lparr>conv_assignee := Some \<lparr>obj_name = JStr ''Bob''\<rparr>, conv_keyCount := 4\<rparr>"


definition conversation9Squid :: conversation where
  "conversation9Squid =
     conversation7\<lparr>conv_id := JNum 9, conv_assigned_agent := Some \<lparr>obj_name = JStr ''Squid Team''\<rparr>,
                  conv_keyCount := 4\<rparr>"

definition withDepartment :: "string \<Rightarrow> conversation \<Rightarrow> conversation" where
  "withDepartment d c = c\<lparr>conv_department := Some \<lparr>obj_name = JStr d\<rparr>\<rparr>"

definition chat7 :: exportedChat where
  "chat7 =
     \<lparr>chatId = ''7'', chat_organizationId = ''OSL'', createdAt = JNum 1704153600, updatedAt = JNull,
      status = JStr ''closed'', customerEmail = JNull, customerName = JNull,
      assignedAgent = JStr ''Bob'', department = JStr ''OSL'', messageCount = 0,
      conversationText = [], hasMessages = False\<rparr>"


text \<open>A chat of 13 September 2020, as a run with an earlier \<^verbatim>\<open>FROM_DATE\<close> cached it.\<close>

definition chat3of2020 :: exportedChat where
  "chat3of2020 = chat7\<lparr>chatId := ''3'', createdAt := JNum 1600000000\<rparr>"

definition cacheWith :: "exportedChat list \<Rightarrow> cache" where
  "cacheWith cs = (freshCache exporterOSL)\<lparr>chats := cs\<rparr>"

text \<open>
  An API whose first candidate endpoint for chat 7 answers with an empty array under
  \<^verbatim>\<open>data\<close> and whose second one answers with a message. For chat 8 the first three
  candidates have no array or fail, and the fourth has two messages under \<^verbatim>\<open>messages\<close>.
\<close>

definition emptyFirstRuntime :: runtime where
  "emptyFirstRuntime =
     offlineRuntime\<lparr>httpGet :=
       (\<lambda>endpoint.
          if endpoint = ''/v1/chats/7/messages'' then Data \<lparr>body_data = Some [], body_messages = None\<rparr>
          else if endpoint = ''/chats/7/messages'' then Data \<lparr>body_data = Some [customerHi], body_messages = None\<rparr>
          else if endpoint = ''/v1/chats/8/messages'' then Data \<lparr>body_data = None, body_messages = None\<rparr>
          else if endpoint = ''/chats/8/messages'' then NoData
          else if endpoint = ''/conversations/8/messages''
               then Data \<lparr>body_data = None, body_messages = Some [customerHi, agentHello]\<rparr>
          else RequestFailed)\<rparr>"


section \<open>Verified properties\<close>

subsection \<open>The categorizer\<close>

lemma mathMax_upper: "x \<in> set xs \<Longrightarrow> x \<le> mathMax xs"
  unfolding mathMax_def
proof (induction xs arbitrary: x rule: rev_induct)
  case Nil
  then show ?case by simp
next
  case (snoc y ys)
  then show ?case by (auto simp: le_max_iff_disj)
qed

lemma mathMax_attained: "mathMax xs \<noteq> 0 \<Longrightarrow> mathMax xs \<in> set xs"
  unfolding mathMax_def
proof (induction xs rule: rev_induct)
  case Nil
  then show ?case by simp
next
  case (snoc y ys)
  then show ?case by (auto simp: max_def split: if_splits)
qed

lemma mathMax_zero_iff: "mathMax xs = 0 \<longleftrightarrow> (\<forall>x \<in> set xs. x = 0)"
  using mathMax_upper[of _ xs] mathMax_attained[of xs] by fastforce

lemma scoreKeywords_sum:
  "scoreKeywords t kws s = s + sum_list (map (\<lambda>kw. countMatches kw t) kws)"
  by (induction kws arbitrary: s) auto

lemma length_scoresOf: "length (scoresOf t) = length categories"
  by (simp add: scoresOf_def)

lemma fst_scoresOf: "map fst (scoresOf t) = map fst categories"
  by (simp add: scoresOf_def case_prod_unfold)

text \<open>
  C4. For every transcript \<open>t\<close>, the empty one included, and whatever the other two
  arguments are, \<open>categorizeConversation\<close> returns a label (never \<^verbatim>\<open>undefined\<close>), and the
  label is a key of the category table. When every category scores zero the label is
  \<open>''general inquiry''\<close>. Otherwise it is the key of the first category, in the order of
  the table, whose score equals the maximum of all scores. The result is a function of
  the transcript: the same input gives the same label.
\<close>

theorem categorize_total:
  fixes t :: string
  defines "scores \<equiv> scoresOf (toLowerCase t)"
  defines "maxScore \<equiv> mathMax (map snd scores)"
  shows "\<exists>label. categorizeConversation t agent customer = Some label
           \<and> label \<in> fst ` set categories
           \<and> ((\<forall>i < length scores. snd (scores ! i) = 0) \<longrightarrow> label = ''general inquiry'')
           \<and> (\<not> (\<forall>i < length scores. snd (scores ! i) = 0) \<longrightarrow>
                (\<exists>i < length categories. label = fst (categories ! i)
                    \<and> snd (scores ! i) = maxScore
                    \<and> (\<forall>j < i. snd (scores ! j) \<noteq> maxScore)
                    \<and> (\<forall>j < length scores. snd (scores ! j) \<le> maxScore)))"
proof (cases "maxScore = 0")
  case True
  have zero: "\<forall>i < length scores. snd (scores ! i) = 0"
    using True mathMax_zero_iff[of "map snd scores"] unfolding maxScore_def
    by (auto simp: all_set_conv_all_nth)
  have "categorizeConversation t agent customer = Some ''general inquiry''"
    using True unfolding categorizeConversation_def maxScore_def scores_def by (simp add: Let_def)
  moreover have "''general inquiry'' \<in> fst ` set categories"
    by (simp add: categories_def)
  ultimately show ?thesis using zero by simp
next
  case False
  have nz: "\<not> (\<forall>i < length scores. snd (scores ! i) = 0)"
    using False mathMax_zero_iff[of "map snd scores"] unfolding maxScore_def
    by (auto simp: all_set_conv_all_nth)
  have "maxScore \<in> set (map snd scores)"
    using False mathMax_attained unfolding maxScore_def by blast
  then obtain p where p: "p \<in> set scores" "snd p = maxScore" by auto
  then have "find (\<lambda>(category, score). score = maxScore) scores \<noteq> None"
    by (auto simp: find_None_iff) (metis prod.collapse)
  then obtain q where q: "find (\<lambda>(category, score). score = maxScore) scores = Some q" by auto
  then obtain i where i: "i < length scores" "snd (scores ! i) = maxScore" "q = scores ! i"
      "\<forall>j<i. snd (scores ! j) \<noteq> maxScore"
    by (auto simp: find_Some_iff case_prod_unfold)
  have len: "length scores = length categories" by (simp add: scores_def length_scoresOf)
  have "fst (scores ! i) = fst (categories ! i)"
    using i(1) len fst_scoresOf[of "toLowerCase t"] unfolding scores_def
    by (metis length_map nth_map)
  moreover have "categorizeConversation t agent customer = Some (fst q)"
    using False q unfolding categorizeConversation_def maxScore_def scores_def by (simp add: Let_def)
  moreover have "\<forall>j < length scores. snd (scores ! j) \<le> maxScore"
    unfolding maxScore_def using mathMax_upper[of _ "map snd scores"] by simp
  moreover have "fst (categories ! i) \<in> fst ` set categories"
    using i(1) len by simp
  ultimately show ?thesis using i nz len by auto
qed

text \<open>
  The empty transcript scores zero everywhere and gets the default label. In
  \<open>''IBC transfer, then ibc''\<close> the first and the ninth category both score 2, the
  maximum, and the first one is returned.
\<close>

theorem categorize_total_witness:
  "map snd (scoresOf (toLowerCase [])) = [0, 0, 0, 0, 0, 0, 0, 0, 0, 0, 0]
   \<and> categorizeConversation [] JUndefined JUndefined = Some ''general inquiry''
   \<and> map snd (scoresOf (toLowerCase ''IBC transfer, then ibc'')) = [2, 0, 0, 0, 0, 0, 0, 0, 2, 0, 0]
   \<and> categorizeConversation ''IBC transfer, then ibc'' JNull JNull = Some (fst (categories ! 0))
   \<and> fst (categories ! 0) = ''bridge provider''"
proof -
  have a: "map snd (scoresOf (toLowerCase [])) = [0, 0, 0, 0, 0, 0, 0, 0, 0, 0, 0]"
    by code_simp
  have b: "categorizeConversation [] JUndefined JUndefined = Some ''general inquiry''"
    by code_simp
  have c: "map snd (scoresOf (toLowerCase ''IBC transfer, then ibc'')) = [2, 0, 0, 0, 0, 0, 0, 0, 2, 0, 0]"
    by code_simp
  have d: "categorizeConversation ''IBC transfer, then ibc'' JNull JNull = Some (fst (categories ! 0))"
    by code_simp
  have e: "fst (categories ! 0) = ''bridge provider''"
    by (simp add: categories_def)
  from categorize_total[of "[]" JUndefined JUndefined]
       categorize_total[of "''IBC transfer, then ibc''" JNull JNull] a b c d e
  show ?thesis by simp
qed

text \<open>
  C10. Two calls of \<open>categorizeConversation\<close> on the same transcript return the same
  label whatever their \<open>assignedAgent\<close> and \<open>customerName\<close> arguments are: the label
  depends on the transcript only.
\<close>

theorem categorize_ignores_agent_and_customer:
  "categorizeConversation t agent customer = categorizeConversation t agent' customer'"
  by (simp add: categorizeConversation_def)

theorem categorize_ignores_witness:
  "categorizeConversation ''swap'' (JStr ''Squid Team'') (JStr ''Ann'')
     = categorizeConversation ''swap'' JNull JNull"
  using categorize_ignores_agent_and_customer[of "''swap''" "JStr ''Squid Team''" "JStr ''Ann''" JNull JNull]
  by simp

subsection \<open>The conversation formatter\<close>

lemma content_spec:
  "js_or (js_or (js_or (msg_text m) (msg_body m)) (msg_content m)) (JStr []) = spec_content m"
  by (simp add: js_or_def spec_content_def)

lemma trimStart_noop: "s = [] \<or> \<not> isWhiteSpace (hd s) \<Longrightarrow> trimStart s = s"
  by (cases s) (auto simp: trimStart_def)

lemma formatMessages_append:
  "formatMessages ms acc = Inr txt \<Longrightarrow>
     txt = acc @ concat (map spec_line (filter (\<lambda>m. \<not> isTech m \<and> bodyOf m \<noteq> []) ms))"
proof (induction ms arbitrary: acc)
  case Nil
  then show ?case by simp
next
  case (Cons m ms)
  show ?case
  proof (cases "isTech m")
    case True
    with Cons show ?thesis by (simp add: isTech_def)
  next
    case False
    let ?c = "js_or (js_or (js_or (msg_text m) (msg_body m)) (msg_content m)) (JStr [])"
    from Cons.prems False obtain s where s: "?c = JStr s"
      by (cases ?c) (auto simp: isTech_def Let_def)
    then have b: "bodyOf m = trim s" by (simp add: bodyOf_def content_spec[symmetric])
    from Cons.prems False s
    have "formatMessages ms (if trim s \<noteq> [] then acc @ ''['' @ tagOf m @ ''] '' @ trim s @ [newline] else acc) = Inr txt"
      by (auto simp: isTech_def Let_def tagOf_def split: if_splits)
    from Cons.IH[OF this] show ?thesis
      using False b by (simp add: spec_line_def)
  qed
qed

lemma lines_start: "concat (map spec_line ms) = [] \<or> \<not> isWhiteSpace (hd (concat (map spec_line ms)))"
  by (cases ms) (auto simp: spec_line_def isWhiteSpace_def)

lemma formatMessages_returns:
  "\<forall>m \<in> set ms. isTech m \<or> hasStringBody m \<Longrightarrow> \<exists>t. formatMessages ms acc = Inr t"
proof (induction ms arbitrary: acc)
  case Nil
  then show ?case by simp
next
  case (Cons m ms)
  show ?case
  proof (cases "isTech m")
    case True
    with Cons show ?thesis by (simp add: isTech_def)
  next
    case False
    with Cons.prems have "hasStringBody m" by simp
    then obtain s where "js_or (js_or (js_or (msg_text m) (msg_body m)) (msg_content m)) (JStr []) = JStr s"
      by (auto simp: hasStringBody_def content_spec[symmetric] split: jsval.splits)
    with False Cons show ?thesis by (simp add: isTech_def Let_def)
  qed
qed

lemma formatMessages_throws:
  "\<exists>m \<in> set ms. \<not> isTech m \<and> \<not> hasStringBody m \<Longrightarrow> formatMessages ms acc = Inl TypeError"
proof (induction ms arbitrary: acc)
  case Nil
  then show ?case by simp
next
  case (Cons m ms)
  show ?case
  proof (cases "isTech m")
    case True
    with Cons show ?thesis by (simp add: isTech_def)
  next
    case False
    show ?thesis
    proof (cases "hasStringBody m")
      case True
      then obtain s where "js_or (js_or (js_or (msg_text m) (msg_body m)) (msg_content m)) (JStr []) = JStr s"
        by (auto simp: hasStringBody_def content_spec[symmetric] split: jsval.splits)
      with False True Cons show ?thesis by (simp add: isTech_def Let_def)
    next
      case nb: False
      then have "trimMethod (js_or (js_or (js_or (msg_text m) (msg_body m)) (msg_content m)) (JStr [])) = Inl TypeError"
        by (auto simp: hasStringBody_def content_spec[symmetric] split: jsval.splits)
      with False show ?thesis by (simp add: isTech_def Let_def)
    qed
  qed
qed

text \<open>The comparator of the formatter orders messages by \<open>spec_key\<close> when all of them have a valid time, and ties them all when none has.\<close>

lemma messageTime_spec: "messageTime R m = spec_time R m"
  by (simp add: messageTime_def spec_time_def js_or_def)

lemma compare_valid:
  assumes "spec_time R a \<noteq> None" "spec_time R b \<noteq> None"
  shows "compareMessages R a b = spec_key R a - spec_key R b"
  using assms by (auto simp: compareMessages_def messageTime_spec spec_key_def)

lemma compare_invalid:
  assumes "spec_time R a = None \<or> spec_time R b = None"
  shows "compareMessages R a b = 0"
  using assms by (auto simp: compareMessages_def messageTime_spec split: option.splits)

lemma sort_key_const: "sort_key (\<lambda>x. c) xs = xs"
  by (induction xs) (auto simp: insort_is_Cons)

lemma conformingSortD:
  assumes "conformingSort R"
      and "\<forall>a \<in> set xs. \<forall>b \<in> set xs. sgn (c a b) = sgn (key a - key b)"
  shows "sortArray R c xs = sort_key key xs"
proof -
  note all = assms(1)[unfolded conformingSort_def]
  show ?thesis
    by (rule all[THEN spec, THEN spec, THEN conjunct2, THEN spec, THEN mp]) (rule assms(2))
qed

lemma sorted_valid:
  assumes "conformingSort R" "\<forall>m \<in> set ms. spec_time R m \<noteq> None"
  shows "sortArray R (compareMessages R) ms = sort_key (spec_key R) ms"
proof (rule conformingSortD[OF assms(1)])
  show "\<forall>a \<in> set ms. \<forall>b \<in> set ms. sgn (compareMessages R a b) = sgn (spec_key R a - spec_key R b)"
    using assms(2) by (simp add: compare_valid)
qed

lemma sorted_invalid:
  assumes "conformingSort R" "\<forall>m \<in> set ms. spec_time R m = None"
  shows "sortArray R (compareMessages R) ms = ms"
proof -
  have "\<forall>a \<in> set ms. \<forall>b \<in> set ms. sgn (compareMessages R a b) = sgn ((\<lambda>m. 0 :: int) a - (\<lambda>m. 0) b)"
    using assms(2) by (simp add: compare_invalid)
  then have "sortArray R (compareMessages R) ms = sort_key (\<lambda>m. 0 :: int) ms"
    by (rule conformingSortD[OF assms(1)])
  then show ?thesis by (simp add: sort_key_const)
qed

lemma sorted_mset: "conformingSort R \<Longrightarrow> mset (sortArray R c ms) = mset ms"
  unfolding conformingSort_def by (elim allE conjE)

lemma sorted_set: "conformingSort R \<Longrightarrow> set (sortArray R c ms) = set ms"
  using sorted_mset by (metis set_mset_mset)


text \<open>The sort of the example runtime conforms.\<close>

lemma mset_insertSorted: "mset (insertSorted c x ys) = add_mset x (mset ys)"
  by (induction ys) auto

lemma mset_insertionSort: "mset (insertionSort c xs) = mset xs"
  by (induction xs) (auto simp: insertionSort_def mset_insertSorted)

lemma set_insertionSort: "set (insertionSort c xs) = set xs"
  using mset_insertionSort[of c xs] by (metis set_mset_mset)

lemma insertSorted_insort:
  assumes "\<forall>b \<in> set ys. sgn (c x b) = sgn (key x - key b)"
  shows "insertSorted c x ys = insort_key key x ys"
  using assms
proof (induction ys)
  case Nil
  then show ?case by simp
next
  case (Cons y ys)
  then have "sgn (c x y) = sgn (key x - key y)" by simp
  then have "c x y > 0 \<longleftrightarrow> \<not> key x \<le> key y"
    by (metis diff_gt_0_iff_gt not_le sgn_greater)
  with Cons show ?case by simp
qed

lemma insertionSort_sort_key:
  assumes "\<forall>a \<in> set xs. \<forall>b \<in> set xs. sgn (c a b) = sgn (key a - key (b::'a))"
  shows "insertionSort c xs = sort_key (key :: 'a \<Rightarrow> int) xs"
  using assms
proof (induction xs)
  case Nil
  then show ?case by (simp add: insertionSort_def)
next
  case (Cons x xs)
  then have ih: "insertionSort c xs = sort_key key xs" by simp
  have "\<forall>b \<in> set (sort_key key xs). sgn (c x b) = sgn (key x - key b)"
    using Cons.prems by simp
  then have "insertSorted c x (sort_key key xs) = insort_key key x (sort_key key xs)"
    by (rule insertSorted_insort)
  with ih show ?case by (simp add: insertionSort_def)
qed

lemma insertionSort_conforms: "sortArray R = insertionSort \<Longrightarrow> conformingSort R"
  unfolding conformingSort_def by (auto simp: mset_insertionSort insertionSort_sort_key)

lemma offlineRuntime_conforms: "conformingSort offlineRuntime"
  by (rule insertionSort_conforms) (simp add: offlineRuntime_def)

lemma emptyFirstRuntime_conforms: "conformingSort emptyFirstRuntime"
  by (rule insertionSort_conforms) (simp add: emptyFirstRuntime_def offlineRuntime_def)

lemma format_snd:
  "conformingSort R \<Longrightarrow>
     snd (formatConversationWithMessages R E conv ms) = sortArray R (compareMessages R) ms"
proof (cases "ms = []")
  case True
  assume "conformingSort R"
  then have "mset (sortArray R (compareMessages R) []) = mset []" by (rule sorted_mset)
  then show ?thesis using True by (simp add: formatConversationWithMessages_def)
next
  case False
  then show ?thesis by (simp add: formatConversationWithMessages_def Let_def)
qed

lemma format_fst:
  "ms \<noteq> [] \<Longrightarrow>
     fst (formatConversationWithMessages R E conv ms) = Inr chat \<Longrightarrow>
     (\<exists>t. formatMessages (sortArray R (compareMessages R) ms) [] = Inr t \<and> conversationText chat = trim t)
     \<and> messageCount chat = length (sortArray R (compareMessages R) ms)"
  by (auto simp: formatConversationWithMessages_def Let_def split: sum.splits)

lemma format_text_spec:
  assumes "ms \<noteq> []" and "fst (formatConversationWithMessages R E conv ms) = Inr chat"
  shows "conversationText chat = spec_transcript (sortArray R (compareMessages R) ms)"
proof -
  let ?sorted = "sortArray R (compareMessages R) ms"
  from format_fst[OF assms] obtain t where t: "formatMessages ?sorted [] = Inr t" "conversationText chat = trim t"
    by blast
  let ?ls = "filter (\<lambda>m. \<not> isTech m \<and> bodyOf m \<noteq> []) ?sorted"
  have "t = concat (map spec_line ?ls)"
    using formatMessages_append[OF t(1)] by simp
  moreover have "trimStart (concat (map spec_line ?ls)) = concat (map spec_line ?ls)"
    using lines_start[of ?ls] by (rule trimStart_noop)
  ultimately show ?thesis
    using t(2) by (simp add: trim_def spec_transcript_def)
qed

lemma format_returns:
  assumes "conformingSort R" and "ms \<noteq> []"
      and "\<forall>m \<in> set ms. isTech m \<or> hasStringBody m"
      and "toStringMethod R (conv_id conv) = Inr cid"
  shows "\<exists>chat. fst (formatConversationWithMessages R E conv ms) = Inr chat"
proof -
  have "\<forall>m \<in> set (sortArray R (compareMessages R) ms). isTech m \<or> hasStringBody m"
    using assms(1,3) by (simp add: sorted_set)
  from formatMessages_returns[OF this, of "[]"] obtain t
    where "formatMessages (sortArray R (compareMessages R) ms) [] = Inr t" ..
  with assms(2,4) show ?thesis
    by (simp add: formatConversationWithMessages_def Let_def)
qed

lemma format_throws:
  assumes "conformingSort R" and "ms \<noteq> []"
      and "\<not> (\<forall>m \<in> set ms. isTech m \<or> hasStringBody m)"
  shows "fst (formatConversationWithMessages R E conv ms) = Inl TypeError"
proof -
  have "\<exists>m \<in> set (sortArray R (compareMessages R) ms). \<not> isTech m \<and> \<not> hasStringBody m"
    using assms(1,3) by (simp add: sorted_set)
  then have "formatMessages (sortArray R (compareMessages R) ms) [] = Inl TypeError"
    by (rule formatMessages_throws)
  with assms(2) show ?thesis
    by (simp add: formatConversationWithMessages_def Let_def)
qed


lemma compare_spec: "compareMessages R = spec_compare R"
  by (auto simp: fun_eq_iff compareMessages_def spec_compare_def messageTime_spec split: option.splits)

lemma formatter_transcript_engine:
  assumes "conformingSort R"
      and "toStringMethod R (conv_id conversation) = Inr cid"
  shows "(messages \<noteq> [] \<and> (\<forall>m \<in> set messages. isTech m \<or> hasStringBody m)
            \<longrightarrow> (\<exists>chat. formatConversationWithMessages R E conversation messages
                            = (Inr chat, sortArray R (compareMessages R) messages)
                    \<and> conversationText chat = spec_transcript (sortArray R (compareMessages R) messages)
                    \<and> mset (sortArray R (compareMessages R) messages) = mset messages
                    \<and> ((\<forall>m \<in> set messages. spec_time R m = None)
                          \<longrightarrow> conversationText chat = spec_transcript messages)
                    \<and> ((\<forall>m \<in> set messages. spec_time R m \<noteq> None)
                          \<longrightarrow> conversationText chat = spec_transcript (sort_key (spec_key R) messages))))
       \<and> (messages \<noteq> [] \<and> \<not> (\<forall>m \<in> set messages. isTech m \<or> hasStringBody m)
            \<longrightarrow> fst (formatConversationWithMessages R E conversation messages) = Inl TypeError)
       \<and> (\<exists>chat. formatConversationWithMessages R E conversation [customerHi, agentHello]
                      = (Inr chat, [customerHi, agentHello])
               \<and> conversationText chat = ''[USER] hi'' @ [newline] @ ''[AGENT] hello'')"
proof (intro conjI impI)
  assume a: "messages \<noteq> [] \<and> (\<forall>m \<in> set messages. isTech m \<or> hasStringBody m)"
  let ?sorted = "sortArray R (compareMessages R) messages"
  from a format_returns[OF assms(1) _ _ assms(2)] obtain chat
    where chat: "fst (formatConversationWithMessages R E conversation messages) = Inr chat"
    by blast
  have r: "formatConversationWithMessages R E conversation messages = (Inr chat, ?sorted)"
    using chat format_snd[OF assms(1), of E conversation messages] by (metis prod.collapse)
  have t: "conversationText chat = spec_transcript ?sorted"
    using a chat by (simp add: format_text_spec)
  have m: "mset ?sorted = mset messages"
    using assms(1) by (rule sorted_mset)
  have i: "conversationText chat = spec_transcript messages" if "\<forall>m \<in> set messages. spec_time R m = None"
    using t sorted_invalid[OF assms(1) that] by simp
  have v: "conversationText chat = spec_transcript (sort_key (spec_key R) messages)"
    if "\<forall>m \<in> set messages. spec_time R m \<noteq> None"
    using t sorted_valid[OF assms(1) that] by simp
  from r t m i v
  show "\<exists>chat. formatConversationWithMessages R E conversation messages = (Inr chat, ?sorted)
          \<and> conversationText chat = spec_transcript ?sorted
          \<and> mset ?sorted = mset messages
          \<and> ((\<forall>m \<in> set messages. spec_time R m = None) \<longrightarrow> conversationText chat = spec_transcript messages)
          \<and> ((\<forall>m \<in> set messages. spec_time R m \<noteq> None)
                \<longrightarrow> conversationText chat = spec_transcript (sort_key (spec_key R) messages))"
    by blast
next
  assume "messages \<noteq> [] \<and> \<not> (\<forall>m \<in> set messages. isTech m \<or> hasStringBody m)"
  then show "fst (formatConversationWithMessages R E conversation messages) = Inl TypeError"
    using format_throws[OF assms(1)] by blast
next
  let ?ms = "[customerHi, agentHello]"
  have none: "\<forall>m \<in> set ?ms. spec_time R m = None"
    by (simp add: spec_time_def customerHi_def agentHello_def emptyMessage_def)
  have same: "sortArray R (compareMessages R) ?ms = ?ms"
    using sorted_invalid[OF assms(1) none] .
  have "formatMessages ?ms [] = Inr (''[USER] hi'' @ [newline] @ ''[AGENT] hello'' @ [newline])"
    by (simp add: customerHi_def agentHello_def emptyMessage_def js_or_def
          trim_def trimStart_def trimEnd_def isWhiteSpace_def)
  moreover have "trim (''[USER] hi'' @ [newline] @ ''[AGENT] hello'' @ [newline]) = ''[USER] hi'' @ [newline] @ ''[AGENT] hello''"
    by (simp add: trim_def trimStart_def trimEnd_def isWhiteSpace_def newline_def)
  ultimately show "\<exists>chat. formatConversationWithMessages R E conversation ?ms = (Inr chat, ?ms)
               \<and> conversationText chat = ''[USER] hi'' @ [newline] @ ''[AGENT] hello''"
    using assms(2) same by (simp add: formatConversationWithMessages_def Let_def)
qed


lemma format_sorts_in_place_engine:
  assumes "conformingSort R"
  shows "mset (snd (formatConversationWithMessages R E conversation messages)) = mset messages
       \<and> ((\<forall>m \<in> set messages. spec_time R m \<noteq> None)
            \<longrightarrow> snd (formatConversationWithMessages R E conversation messages) = sort_key (spec_key R) messages
                \<and> sorted (map (spec_key R) (snd (formatConversationWithMessages R E conversation messages))))
       \<and> ((\<forall>m \<in> set messages. spec_time R m = None)
            \<longrightarrow> snd (formatConversationWithMessages R E conversation messages) = messages)
       \<and> (conv_keyCount conversation > 0 \<and> conv_messages conversation = Some messages
            \<longrightarrow> snd (processConversation R E conversation)
                  = conversation\<lparr>conv_messages :=
                      Some (snd (formatConversationWithMessages R E conversation messages))\<rparr>)
       \<and> (conv_messages conversation = None \<longrightarrow> snd (processConversation R E conversation) = conversation)"
proof (intro conjI impI)
  note snd_eq = format_snd[OF assms, of E conversation messages]
  show "mset (snd (formatConversationWithMessages R E conversation messages)) = mset messages"
    using sorted_mset[OF assms] by (simp add: snd_eq)
  show "snd (formatConversationWithMessages R E conversation messages) = sort_key (spec_key R) messages"
    if "\<forall>m \<in> set messages. spec_time R m \<noteq> None"
    using sorted_valid[OF assms that] by (simp add: snd_eq)
  show "sorted (map (spec_key R) (snd (formatConversationWithMessages R E conversation messages)))"
    if "\<forall>m \<in> set messages. spec_time R m \<noteq> None"
    using sorted_valid[OF assms that] by (simp add: snd_eq)
  show "snd (formatConversationWithMessages R E conversation messages) = messages"
    if "\<forall>m \<in> set messages. spec_time R m = None"
    using sorted_invalid[OF assms that] by (simp add: snd_eq)
  show "snd (processConversation R E conversation)
          = conversation\<lparr>conv_messages := Some (snd (formatConversationWithMessages R E conversation messages))\<rparr>"
    if "conv_keyCount conversation > 0 \<and> conv_messages conversation = Some messages"
    using that by (simp add: processConversation_def case_prod_unfold Let_def)
  show "snd (processConversation R E conversation) = conversation"
    if "conv_messages conversation = None"
    using that by (simp add: processConversation_def Let_def)
qed

text \<open>
  C7. On an engine whose sort conforms, and for a conversation whose id has a
  \<^verbatim>\<open>toString()\<close>: for every non-empty message list in which each message that is not
  technical has a string as content (or none), the formatter returns a chat, leaves the
  array sorted, and the chat's \<open>conversationText\<close> is the transcript of the specification
  over the input messages in their sorted order: one line \<^verbatim>\<open>[TAG] trimmed-body\<close> and a
  newline for every message that is not technical and has a non-empty trimmed body, AGENT
  exactly when \<^verbatim>\<open>from\<close> is \<^verbatim>\<open>'agent'\<close> and USER otherwise, with the trailing white space of
  the whole removed. The sorted order is the input order when no message has a valid
  time, and the stable ascending order of time when every message has one. When a
  message that is not technical has a content that is no string, the formatter throws a
  TypeError. For \<^verbatim>\<open>[{from:'customer',text:'hi'},{from:'agent',text:'hello'}]\<close> the transcript
  is \<^verbatim>\<open>"[USER] hi\n[AGENT] hello"\<close>.
\<close>

theorem formatter_transcript:
  assumes "conformingSort R"
      and "toStringMethod R (conv_id conversation) = Inr cid"
  shows "(messages \<noteq> [] \<and> (\<forall>m \<in> set messages. isTech m \<or> hasStringBody m)
            \<longrightarrow> (\<exists>chat. formatConversationWithMessages R E conversation messages
                            = (Inr chat, sortArray R (spec_compare R) messages)
                    \<and> conversationText chat = spec_transcript (sortArray R (spec_compare R) messages)
                    \<and> mset (sortArray R (spec_compare R) messages) = mset messages
                    \<and> ((\<forall>m \<in> set messages. spec_time R m = None)
                          \<longrightarrow> conversationText chat = spec_transcript messages)
                    \<and> ((\<forall>m \<in> set messages. spec_time R m \<noteq> None)
                          \<longrightarrow> conversationText chat = spec_transcript (sort_key (spec_key R) messages))))
       \<and> (messages \<noteq> [] \<and> \<not> (\<forall>m \<in> set messages. isTech m \<or> hasStringBody m)
            \<longrightarrow> fst (formatConversationWithMessages R E conversation messages) = Inl TypeError)
       \<and> (\<exists>chat. formatConversationWithMessages R E conversation [customerHi, agentHello]
                      = (Inr chat, [customerHi, agentHello])
               \<and> conversationText chat = ''[USER] hi'' @ [newline] @ ''[AGENT] hello'')"
  using formatter_transcript_engine[OF assms, of messages E, unfolded compare_spec] .

text \<open>
  The example of the specification on conversation 7, and a reply of time 2000 standing
  before a question of time 1000: the question comes first in the transcript.
\<close>

theorem formatter_transcript_witness:
  "toStringMethod offlineRuntime (conv_id conversation7) = Inr ''7''
   \<and> (\<exists>chat. formatConversationWithMessages offlineRuntime exporterOSL conversation7 [customerHi, agentHello]
                = (Inr chat, [customerHi, agentHello])
         \<and> conversationText chat = ''[USER] hi'' @ [newline] @ ''[AGENT] hello'')
   \<and> (\<exists>chat. formatConversationWithMessages offlineRuntime exporterOSL conversation7 [lateReply, earlyQuestion]
                = (Inr chat, [earlyQuestion, lateReply])
         \<and> conversationText chat = ''[USER] help'' @ [newline] @ ''[AGENT] done'')"
proof -
  have cid: "toStringMethod offlineRuntime (conv_id conversation7) = Inr ''7''"
    by code_simp
  note T = formatter_transcript[OF offlineRuntime_conforms cid, of _ exporterOSL]
  from T[of "[]"] have ex1: "\<exists>chat. formatConversationWithMessages offlineRuntime exporterOSL conversation7 [customerHi, agentHello]
                = (Inr chat, [customerHi, agentHello])
         \<and> conversationText chat = ''[USER] hi'' @ [newline] @ ''[AGENT] hello''"
    by blast
  let ?ms = "[lateReply, earlyQuestion]"
  have h: "?ms \<noteq> [] \<and> (\<forall>m \<in> set ?ms. isTech m \<or> hasStringBody m)"
    by code_simp
  have s: "sortArray offlineRuntime (spec_compare offlineRuntime) ?ms = [earlyQuestion, lateReply]"
    by code_simp
  have t: "spec_transcript [earlyQuestion, lateReply] = ''[USER] help'' @ [newline] @ ''[AGENT] done''"
    by code_simp
  from T[of ?ms] h obtain chat where
    "formatConversationWithMessages offlineRuntime exporterOSL conversation7 ?ms
       = (Inr chat, sortArray offlineRuntime (spec_compare offlineRuntime) ?ms)"
    "conversationText chat = spec_transcript (sortArray offlineRuntime (spec_compare offlineRuntime) ?ms)"
    by blast
  then have ex2: "\<exists>chat. formatConversationWithMessages offlineRuntime exporterOSL conversation7 ?ms
                = (Inr chat, [earlyQuestion, lateReply])
         \<and> conversationText chat = ''[USER] help'' @ [newline] @ ''[AGENT] done''"
    by (simp only: s t) blast
  from cid ex1 ex2 show ?thesis by (intro conjI)
qed



text \<open>
  C9. On an engine whose sort conforms, the array handed to
  \<open>formatConversationWithMessages\<close> holds after the call what the engine's sort leaves
  of it for the comparator of the specification, the same messages rearranged: in stable
  ascending order of time when every message has a valid time, and as they were when
  none has. \<open>processConversation\<close> hands a conversation's inline messages
  over as that array, so the conversation comes back with its \<^verbatim>\<open>messages\<close> being the array
  as the formatter left it; a conversation without inline messages comes back unchanged.
\<close>

theorem format_sorts_in_place:
  assumes "conformingSort R"
  shows "snd (formatConversationWithMessages R E conversation messages) = sortArray R (spec_compare R) messages
       \<and> mset (snd (formatConversationWithMessages R E conversation messages)) = mset messages
       \<and> ((\<forall>m \<in> set messages. spec_time R m \<noteq> None)
            \<longrightarrow> snd (formatConversationWithMessages R E conversation messages) = sort_key (spec_key R) messages
                \<and> sorted (map (spec_key R) (snd (formatConversationWithMessages R E conversation messages))))
       \<and> ((\<forall>m \<in> set messages. spec_time R m = None)
            \<longrightarrow> snd (formatConversationWithMessages R E conversation messages) = messages)
       \<and> (conv_keyCount conversation > 0 \<and> conv_messages conversation = Some messages
            \<longrightarrow> snd (processConversation R E conversation)
                  = conversation\<lparr>conv_messages :=
                      Some (snd (formatConversationWithMessages R E conversation messages))\<rparr>)
       \<and> (conv_messages conversation = None \<longrightarrow> snd (processConversation R E conversation) = conversation)"
  using format_snd[OF assms, of E conversation messages, unfolded compare_spec]
        format_sorts_in_place_engine[OF assms, of E conversation messages]
  by (rule conjI)

text \<open>
  A reply with 2000 under \<^verbatim>\<open>created_at\<close> standing before a question with 1000 under
  \<^verbatim>\<open>createdAt\<close> (their \<^verbatim>\<open>timestamp\<close> keys, 5 and 9000, are not read): the conversation's
  array is swapped. Two messages without time stamps stay as they are.
\<close>

theorem format_sorts_in_place_witness:
  "snd (processConversation offlineRuntime exporterOSL (conversation7\<lparr>conv_messages := Some [lateReply, earlyQuestion]\<rparr>))
     = conversation7\<lparr>conv_messages := Some [earlyQuestion, lateReply]\<rparr>
   \<and> snd (formatConversationWithMessages offlineRuntime exporterOSL conversation7 [lateReply, earlyQuestion])
     = [earlyQuestion, lateReply]
   \<and> map (spec_key offlineRuntime) [lateReply, earlyQuestion] = [2000, 1000]
   \<and> snd (formatConversationWithMessages offlineRuntime exporterOSL conversation7 [agentHello, customerHi])
     = [agentHello, customerHi]"
proof -
  let ?ms = "[lateReply, earlyQuestion]"
  let ?c = "conversation7\<lparr>conv_messages := Some ?ms\<rparr>"
  have valid: "\<forall>m \<in> set ?ms. spec_time offlineRuntime m \<noteq> None"
    by code_simp
  have none: "\<forall>m \<in> set [agentHello, customerHi]. spec_time offlineRuntime m = None"
    by code_simp
  have keys: "map (spec_key offlineRuntime) ?ms = [2000, 1000]"
    by code_simp
  have sk: "sort_key (spec_key offlineRuntime) ?ms = [earlyQuestion, lateReply]"
    by code_simp
  have k: "conv_keyCount ?c > 0 \<and> conv_messages ?c = Some ?ms"
    by code_simp
  note T = format_sorts_in_place[OF offlineRuntime_conforms, of exporterOSL]
  from T[of conversation7 ?ms] valid
  have a: "snd (formatConversationWithMessages offlineRuntime exporterOSL conversation7 ?ms) = sort_key (spec_key offlineRuntime) ?ms"
    by blast
  from T[of ?c ?ms] valid
  have a': "snd (formatConversationWithMessages offlineRuntime exporterOSL ?c ?ms) = sort_key (spec_key offlineRuntime) ?ms"
    by blast
  from T[of ?c ?ms] k
  have b: "snd (processConversation offlineRuntime exporterOSL ?c)
            = ?c\<lparr>conv_messages := Some (snd (formatConversationWithMessages offlineRuntime exporterOSL ?c ?ms))\<rparr>"
    by blast
  from T[of conversation7 "[agentHello, customerHi]"] none
  have c: "snd (formatConversationWithMessages offlineRuntime exporterOSL conversation7 [agentHello, customerHi]) = [agentHello, customerHi]"
    by blast
  have b': "snd (processConversation offlineRuntime exporterOSL ?c) = conversation7\<lparr>conv_messages := Some [earlyQuestion, lateReply]\<rparr>"
    unfolding b a' sk by simp
  have a2: "snd (formatConversationWithMessages offlineRuntime exporterOSL conversation7 ?ms) = [earlyQuestion, lateReply]"
    unfolding a sk ..
  from b' a2 keys c show ?thesis by (intro conjI)
qed

subsection \<open>The department filter\<close>

lemma passes_spec: "passesDepartment E c = spec_keeps E c"
  by (auto simp: passesDepartment_def spec_keeps_def split: option.splits)

lemma filterByDepartment_eq:
  "filterConversationsByDepartment E cs
     = (filter (passesDepartment E) (map backfillDepartment cs), map backfillDepartment cs)"
  by (induction cs) (auto simp: Let_def split: prod.splits)

text \<open>
  C5, as amended. The department filter keeps the order of its input and keeps exactly
  the conversations whose department name, after the backfill, equals
  \<open>departmentFilter\<close>; it keeps all of them when \<open>departmentFilter\<close> is unset or empty. The
  backfill is made on the conversations themselves. It applies to a conversation with no
  department that has an assignee or an assigned agent: the department becomes SQUID when
  the assignee's name (the assigned agent's, when the assignee has none) is exactly
  \<open>''Squid Team''\<close>, and OSL otherwise. A conversation that has a department, or that has
  neither assignee nor assigned agent, is left as it is.
\<close>

theorem department_filter_amended:
  "fst (filterConversationsByDepartment E conversations)
      = filter (spec_keeps E) (map backfillDepartment conversations)
   \<and> snd (filterConversationsByDepartment E conversations) = map backfillDepartment conversations
   \<and> (departmentFilter E = None \<or> departmentFilter E = Some []
        \<longrightarrow> fst (filterConversationsByDepartment E conversations) = map backfillDepartment conversations)
   \<and> (departmentFilter E = Some f \<and> f \<noteq> []
        \<longrightarrow> fst (filterConversationsByDepartment E conversations)
              = filter (\<lambda>c. nameOf (conv_department c) = JStr f) (map backfillDepartment conversations))
   \<and> (conv_department c = None \<and> (conv_assignee c \<noteq> None \<or> conv_assigned_agent c \<noteq> None)
        \<longrightarrow> backfillDepartment c
              = c\<lparr>conv_department := Some \<lparr>obj_name = JStr
                    (if js_or (nameOf (conv_assignee c)) (nameOf (conv_assigned_agent c)) = JStr ''Squid Team''
                     then ''SQUID'' else ''OSL'')\<rparr>\<rparr>)
   \<and> (conv_department c \<noteq> None \<or> (conv_assignee c = None \<and> conv_assigned_agent c = None)
        \<longrightarrow> backfillDepartment c = c)"
proof (intro conjI impI)
  show "fst (filterConversationsByDepartment E conversations)
      = filter (spec_keeps E) (map backfillDepartment conversations)"
    by (simp add: filterByDepartment_eq passes_spec[abs_def])
  show "snd (filterConversationsByDepartment E conversations) = map backfillDepartment conversations"
    by (simp add: filterByDepartment_eq)
  show "fst (filterConversationsByDepartment E conversations) = map backfillDepartment conversations"
    if "departmentFilter E = None \<or> departmentFilter E = Some []"
    using that by (auto simp: filterByDepartment_eq passesDepartment_def)
  show "fst (filterConversationsByDepartment E conversations)
          = filter (\<lambda>c. nameOf (conv_department c) = JStr f) (map backfillDepartment conversations)"
    if "departmentFilter E = Some f \<and> f \<noteq> []"
  proof -
    have "passesDepartment E = (\<lambda>c. nameOf (conv_department c) = JStr f)"
      using that by (auto simp: passesDepartment_def fun_eq_iff)
    then show ?thesis by (simp add: filterByDepartment_eq)
  qed
  show "backfillDepartment c
          = c\<lparr>conv_department := Some \<lparr>obj_name = JStr
                (if js_or (nameOf (conv_assignee c)) (nameOf (conv_assigned_agent c)) = JStr ''Squid Team''
                 then ''SQUID'' else ''OSL'')\<rparr>\<rparr>"
    if "conv_department c = None \<and> (conv_assignee c \<noteq> None \<or> conv_assigned_agent c \<noteq> None)"
    using that by (auto simp: backfillDepartment_def Let_def)
  show "backfillDepartment c = c"
    if "conv_department c \<noteq> None \<or> (conv_assignee c = None \<and> conv_assigned_agent c = None)"
    using that by (auto simp: backfillDepartment_def)
qed

text \<open>
  Conversation 7 has no department and no assignee. The claim as stated gives it the
  department OSL, so that the filter OSL keeps it; the filter leaves it without a
  department and drops it.
\<close>

theorem department_filter_counterexample:
  "conv_department conversation7 = None
   \<and> departmentFilter exporterOSL = Some ''OSL''
   \<and> map conv_department (snd (filterConversationsByDepartment exporterOSL [conversation7])) = [None]
   \<and> fst (filterConversationsByDepartment exporterOSL [conversation7]) = []"
  by code_simp

text \<open>
  With the filter OSL, of Bob's conversation, conversation 7 and the Squid Team's
  conversation only the first is kept; without a filter all are kept.
\<close>

theorem department_filter_witness:
  "fst (filterConversationsByDepartment exporterOSL [conversation7Bob, conversation7, conversation9Squid])
      = [withDepartment ''OSL'' conversation7Bob]
   \<and> snd (filterConversationsByDepartment exporterOSL [conversation7Bob, conversation7, conversation9Squid])
      = [withDepartment ''OSL'' conversation7Bob, conversation7, withDepartment ''SQUID'' conversation9Squid]
   \<and> fst (filterConversationsByDepartment (exporterOSL\<lparr>departmentFilter := None\<rparr>) [conversation7Bob, conversation7])
      = [withDepartment ''OSL'' conversation7Bob, conversation7]"
proof -
  let ?cs = "[conversation7Bob, conversation7, conversation9Squid]"
  have f: "departmentFilter exporterOSL = Some ''OSL'' \<and> ''OSL'' \<noteq> []"
    by code_simp
  have n: "departmentFilter (exporterOSL\<lparr>departmentFilter := None\<rparr>) = None
            \<or> departmentFilter (exporterOSL\<lparr>departmentFilter := None\<rparr>) = Some []"
    by simp
  have h7b: "conv_department conversation7Bob = None
      \<and> (conv_assignee conversation7Bob \<noteq> None \<or> conv_assigned_agent conversation7Bob \<noteq> None)"
    by code_simp
  have h7: "conv_department conversation7 \<noteq> None
      \<or> (conv_assignee conversation7 = None \<and> conv_assigned_agent conversation7 = None)"
    by code_simp
  have m: "map backfillDepartment ?cs
      = [withDepartment ''OSL'' conversation7Bob, conversation7, withDepartment ''SQUID'' conversation9Squid]"
    by code_simp
  have k: "filter (\<lambda>c. nameOf (conv_department c) = JStr ''OSL'')
             [withDepartment ''OSL'' conversation7Bob, conversation7, withDepartment ''SQUID'' conversation9Squid]
           = [withDepartment ''OSL'' conversation7Bob]"
    by code_simp
  have m2: "map backfillDepartment [conversation7Bob, conversation7] = [withDepartment ''OSL'' conversation7Bob, conversation7]"
    by code_simp
  note T = department_filter_amended[of exporterOSL ?cs "''OSL''" conversation7Bob]
  note U = department_filter_amended[of "exporterOSL\<lparr>departmentFilter := None\<rparr>" "[conversation7Bob, conversation7]" "''OSL''" conversation7]
  from T f have "fst (filterConversationsByDepartment exporterOSL ?cs)
      = filter (\<lambda>c. nameOf (conv_department c) = JStr ''OSL'') (map backfillDepartment ?cs)"
    by blast
  then have a: "fst (filterConversationsByDepartment exporterOSL ?cs) = [withDepartment ''OSL'' conversation7Bob]"
    by (simp only: m k)
  from T have "snd (filterConversationsByDepartment exporterOSL ?cs) = map backfillDepartment ?cs"
    by blast
  then have b: "snd (filterConversationsByDepartment exporterOSL ?cs)
      = [withDepartment ''OSL'' conversation7Bob, conversation7, withDepartment ''SQUID'' conversation9Squid]"
    by (simp only: m)
  from U n have "fst (filterConversationsByDepartment (exporterOSL\<lparr>departmentFilter := None\<rparr>) [conversation7Bob, conversation7])
      = map backfillDepartment [conversation7Bob, conversation7]"
    by blast
  then have c: "fst (filterConversationsByDepartment (exporterOSL\<lparr>departmentFilter := None\<rparr>) [conversation7Bob, conversation7])
      = [withDepartment ''OSL'' conversation7Bob, conversation7]"
    by (simp only: m2)
  from a b c show ?thesis by (intro conjI)
qed

subsection \<open>The message fetcher\<close>

lemma tryEndpoints_eq:
  "tryEndpoints get es
     = (case List.map_filter (\<lambda>e. responseArray (get e)) es of [] \<Rightarrow> [] | arr # _ \<Rightarrow> take 100 arr)"
  by (induction es) (auto simp: List.map_filter_simps responseArray_def split: response.splits option.splits)

lemma map_filter_all_None: "\<forall>x \<in> set xs. f x = None \<Longrightarrow> List.map_filter f xs = []"
  by (induction xs) (auto simp: List.map_filter_simps)

lemma map_filter_first_Some:
  "\<forall>x \<in> set before. f x = None \<Longrightarrow> f e = Some a \<Longrightarrow>
     List.map_filter f (before @ e # after) = a # List.map_filter f after"
  by (induction before) (auto simp: List.map_filter_simps)

text \<open>
  C3, as amended. \<open>getChatMessages\<close> asks the five candidate endpoints in their fixed
  order and returns the first 100 entries, in order, of the first array that a response
  offers under \<^verbatim>\<open>data\<close> or, failing that, under \<^verbatim>\<open>messages\<close>, whether that array is empty
  or not: no later candidate is asked once an array is found. A failed request and a
  response without such an array lead to the next candidate; when no candidate offers an
  array the result is the empty sequence, never an error.
\<close>

theorem getChatMessages_first_array:
  "getChatMessages R cid
     = (case List.map_filter (\<lambda>endpoint. responseArray (httpGet R endpoint)) (possibleEndpoints R cid) of
          [] \<Rightarrow> []
        | arr # _ \<Rightarrow> take 100 arr)
   \<and> length (getChatMessages R cid) \<le> 100
   \<and> possibleEndpoints R cid
        = [''/v1/chats/'' @ ToString R cid @ ''/messages'', ''/chats/'' @ ToString R cid @ ''/messages'',
           ''/v1/conversations/'' @ ToString R cid @ ''/messages'', ''/conversations/'' @ ToString R cid @ ''/messages'',
           ''/v1/chats/'' @ ToString R cid]
   \<and> ((\<forall>endpoint \<in> set (possibleEndpoints R cid). responseArray (httpGet R endpoint) = None)
        \<longrightarrow> getChatMessages R cid = [])
   \<and> (possibleEndpoints R cid = before @ endpoint # after
        \<and> (\<forall>earlier \<in> set before. responseArray (httpGet R earlier) = None)
        \<and> responseArray (httpGet R endpoint) = Some arr
        \<longrightarrow> getChatMessages R cid = take 100 arr)"
proof (intro conjI impI)
  show eq: "getChatMessages R cid
     = (case List.map_filter (\<lambda>endpoint. responseArray (httpGet R endpoint)) (possibleEndpoints R cid) of
          [] \<Rightarrow> []
        | arr # _ \<Rightarrow> take 100 arr)"
    by (simp add: getChatMessages_def tryEndpoints_eq)
  show "length (getChatMessages R cid) \<le> 100"
    unfolding eq by (simp split: list.splits)
  show "possibleEndpoints R cid
        = [''/v1/chats/'' @ ToString R cid @ ''/messages'', ''/chats/'' @ ToString R cid @ ''/messages'',
           ''/v1/conversations/'' @ ToString R cid @ ''/messages'', ''/conversations/'' @ ToString R cid @ ''/messages'',
           ''/v1/chats/'' @ ToString R cid]"
    by (simp add: possibleEndpoints_def Let_def)
  show "getChatMessages R cid = []"
    if "\<forall>endpoint \<in> set (possibleEndpoints R cid). responseArray (httpGet R endpoint) = None"
    unfolding eq using map_filter_all_None[OF that] by simp
  show "getChatMessages R cid = take 100 arr"
    if "possibleEndpoints R cid = before @ endpoint # after
        \<and> (\<forall>earlier \<in> set before. responseArray (httpGet R earlier) = None)
        \<and> responseArray (httpGet R endpoint) = Some arr"
  proof -
    from that have "List.map_filter (\<lambda>endpoint. responseArray (httpGet R endpoint)) (possibleEndpoints R cid)
        = arr # List.map_filter (\<lambda>endpoint. responseArray (httpGet R endpoint)) after"
      using map_filter_first_Some[of before "\<lambda>endpoint. responseArray (httpGet R endpoint)" endpoint arr after]
      by simp
    then show ?thesis unfolding eq by simp
  qed
qed

text \<open>
  The first candidate for chat 7 answers with an empty array under \<^verbatim>\<open>data\<close>, the second
  with one message. The claim as stated goes on to the second candidate; the fetcher
  returns the empty array of the first.
\<close>

theorem getChatMessages_counterexample:
  "possibleEndpoints emptyFirstRuntime (JNum 7)
     = [''/v1/chats/7/messages'', ''/chats/7/messages'', ''/v1/conversations/7/messages'',
        ''/conversations/7/messages'', ''/v1/chats/7'']
   \<and> httpGet emptyFirstRuntime ''/v1/chats/7/messages'' = Data \<lparr>body_data = Some [], body_messages = None\<rparr>
   \<and> httpGet emptyFirstRuntime ''/chats/7/messages'' = Data \<lparr>body_data = Some [customerHi], body_messages = None\<rparr>
   \<and> getChatMessages emptyFirstRuntime (JNum 7) = []"
  by code_simp

text \<open>
  For chat 8 the first three candidates offer no array and the fourth offers two messages
  under \<^verbatim>\<open>messages\<close>; for chat 7 the first candidate offers an empty array; for chat 9
  every request fails.
\<close>

theorem getChatMessages_witness:
  "getChatMessages emptyFirstRuntime (JNum 8) = [customerHi, agentHello]
   \<and> getChatMessages emptyFirstRuntime (JNum 7) = []
   \<and> getChatMessages emptyFirstRuntime (JNum 9) = []"
proof -
  have e8: "possibleEndpoints emptyFirstRuntime (JNum 8)
      = [''/v1/chats/8/messages'', ''/chats/8/messages'', ''/v1/conversations/8/messages'']
        @ ''/conversations/8/messages'' # [''/v1/chats/8'']
     \<and> (\<forall>earlier \<in> set [''/v1/chats/8/messages'', ''/chats/8/messages'', ''/v1/conversations/8/messages''].
           responseArray (httpGet emptyFirstRuntime earlier) = None)
     \<and> responseArray (httpGet emptyFirstRuntime ''/conversations/8/messages'') = Some [customerHi, agentHello]"
    by code_simp
  have e7: "possibleEndpoints emptyFirstRuntime (JNum 7)
      = [] @ ''/v1/chats/7/messages'' # [''/chats/7/messages'', ''/v1/conversations/7/messages'',
              ''/conversations/7/messages'', ''/v1/chats/7'']
     \<and> (\<forall>earlier \<in> set []. responseArray (httpGet emptyFirstRuntime earlier) = None)
     \<and> responseArray (httpGet emptyFirstRuntime ''/v1/chats/7/messages'') = Some []"
    by code_simp
  have e9: "\<forall>endpoint \<in> set (possibleEndpoints emptyFirstRuntime (JNum 9)).
              responseArray (httpGet emptyFirstRuntime endpoint) = None"
    by code_simp
  from getChatMessages_first_array[of emptyFirstRuntime "JNum 8"
        "[''/v1/chats/8/messages'', ''/chats/8/messages'', ''/v1/conversations/8/messages'']"
        "''/conversations/8/messages''" "[''/v1/chats/8'']" "[customerHi, agentHello]"] e8
  have a: "getChatMessages emptyFirstRuntime (JNum 8) = take 100 [customerHi, agentHello]"
    by blast
  from getChatMessages_first_array[of emptyFirstRuntime "JNum 7" "[]" "''/v1/chats/7/messages''"
        "[''/chats/7/messages'', ''/v1/conversations/7/messages'', ''/conversations/7/messages'', ''/v1/chats/7'']" "[]"] e7
  have b: "getChatMessages emptyFirstRuntime (JNum 7) = take 100 []"
    by blast
  from getChatMessages_first_array[of emptyFirstRuntime "JNum 9"] e9
  have c: "getChatMessages emptyFirstRuntime (JNum 9) = []"
    by blast
  from a b c show ?thesis by simp
qed

subsection \<open>The export run\<close>




lemma appendBatch_writes:
  "\<exists>ws. run_writes (appendBatch E i n rs st) = run_writes st @ ws
       \<and> (\<forall>w \<in> set ws. \<exists>c. w = (cacheFile E, CacheJson c))"
  by (auto simp: appendBatch_def Let_def)

lemma batchLoop_writes:
  "\<exists>ws. run_writes (batchLoop R E u i st) = run_writes st @ ws
       \<and> (\<forall>w \<in> set ws. \<exists>c. w = (cacheFile E, CacheJson c))"
proof (induction R E u i st rule: batchLoop.induct)
  case (1 R E u i st)
  show ?case
  proof (cases "i < length u")
    case True
    let ?st' = "appendBatch E i (length u) (processBatch R E (slice i (i + batchSize) u) []) st"
    from "1.IH"[OF True refl refl] obtain ws where
      ws: "run_writes (batchLoop R E u (i + batchSize) ?st') = run_writes ?st' @ ws"
          "\<forall>w \<in> set ws. \<exists>c. w = (cacheFile E, CacheJson c)"
      by blast
    from appendBatch_writes[of E i "length u" "processBatch R E (slice i (i + batchSize) u) []" st]
    obtain ws0 where ws0: "run_writes ?st' = run_writes st @ ws0"
          "\<forall>w \<in> set ws0. \<exists>c. w = (cacheFile E, CacheJson c)"
      by blast
    have "batchLoop R E u i st = batchLoop R E u (i + batchSize) ?st'"
      using True by (subst batchLoop.simps) (simp add: Let_def)
    with ws ws0 have "run_writes (batchLoop R E u i st) = run_writes st @ (ws0 @ ws)"
      by simp
    moreover have "\<forall>w \<in> set (ws0 @ ws). \<exists>c. w = (cacheFile E, CacheJson c)"
      using ws(2) ws0(2) by auto
    ultimately show ?thesis by blast
  next
    case False
    then have "batchLoop R E u i st = st" by (subst batchLoop.simps) simp
    then show ?thesis by simp
  qed
qed


text \<open>
  C8. The name of the CSV summary is the output file name with its first \<^verbatim>\<open>.json\<close>
  replaced by \<^verbatim>\<open>_summary.csv\<close>. A name in which \<^verbatim>\<open>.json\<close> does not occur is left as it is:
  then every CSV write of a run goes to the output file itself, directly after the write
  of the JSON export to the same path.
\<close>


lemma export_nothing_new:
  assumes "conversations \<noteq> []"
      and "fst (filterConversationsByDepartment E conversations) \<noteq> []"
      and "filterUncached R cache0 (fst (filterConversationsByDepartment E conversations)) = Inr []"
  shows "export R E cache0 conversations
       = \<lparr>res_outcome = Completed,
          res_writes = [(outputFile E, JsonExport (makeOutput E (length conversations)
                           (length (fst (filterConversationsByDepartment E conversations))) 0 (chats cache0)))],
          res_cache = cache0\<rparr>"
  using assms by (simp add: export_def Let_def)

lemma export_json_write_batches:
  assumes "filterUncached R cache0 (fst (filterConversationsByDepartment E conversations)) = Inr uncached"
      and "uncached \<noteq> []"
      and "(path, JsonExport out) \<in> set (res_writes (export R E cache0 conversations))"
  shows "out_chats out = filter (notBeforeFromDate R E) (chats (res_cache (export R E cache0 conversations)))"
proof -
  let ?filtered = "fst (filterConversationsByDepartment E conversations)"
  from assms(3) have ne: "length conversations \<noteq> 0" "length ?filtered \<noteq> 0"
    by (auto simp: export_def Let_def split: if_splits)
  let ?st = "batchLoop R E uncached 0 \<lparr>run_cache = cache0, run_writes = [], run_newChatsCount = 0\<rparr>"
  let ?out = "makeOutput E (length conversations) (length ?filtered) (run_newChatsCount ?st)
                (filter (notBeforeFromDate R E) (chats (run_cache ?st)))"
  from batchLoop_writes[of R E uncached 0 "\<lparr>run_cache = cache0, run_writes = [], run_newChatsCount = 0\<rparr>"]
  obtain ws where ws: "run_writes ?st = ws" "\<forall>w \<in> set ws. \<exists>c. w = (cacheFile E, CacheJson c)"
    by auto
  have nojson: "(path, JsonExport out) \<notin> set ws" using ws(2) by auto
  have c: "res_cache (export R E cache0 conversations) = run_cache ?st"
    using ne assms(1,2) by (simp add: export_def Let_def split: sum.splits)
  have "set (res_writes (export R E cache0 conversations)) \<subseteq> set ws \<union> {(outputFile E, JsonExport ?out)}
          \<union> {w. \<exists>csv. w = (csvFileName (outputFile E), CsvSummary csv)}"
    using ne assms(1,2) ws(1) by (auto simp: export_def Let_def split: sum.splits)
  with assms(3) nojson have "out = ?out" by auto
  then show ?thesis using c by (simp add: makeOutput_def)
qed


















lemma mergeWithCache_keeps_new_duplicates: "mergeWithCache [] [c, c] = [c, c]"
  by (simp add: mergeWithCache_def)



text \<open>
  C1. What the two paths of \<open>export\<close> write. When every conversation that passed the
  department filter is cached already, the run writes one output, and its chats are the
  whole of \<^verbatim>\<open>cache.chats\<close>: no date filter is applied. When some conversation is not cached,
  the output that the run writes holds exactly the cached chats whose \<^verbatim>\<open>createdAt\<close> is not
  before \<^verbatim>\<open>fromDate\<close>. The claim holds on the second path only.
\<close>

theorem nothing_new_output_unfiltered:
  "(conversations \<noteq> []
      \<and> fst (filterConversationsByDepartment E conversations) \<noteq> []
      \<and> filterUncached R cache0 (fst (filterConversationsByDepartment E conversations)) = Inr []
     \<longrightarrow> export R E cache0 conversations
          = \<lparr>res_outcome = Completed,
             res_writes = [(outputFile E, JsonExport (makeOutput E (length conversations)
                              (length (fst (filterConversationsByDepartment E conversations))) 0 (chats cache0)))],
             res_cache = cache0\<rparr>
        \<and> out_chats (makeOutput E (length conversations)
                (length (fst (filterConversationsByDepartment E conversations))) 0 (chats cache0)) = chats cache0)
   \<and> (filterUncached R cache0 (fst (filterConversationsByDepartment E conversations)) = Inr uncached
      \<and> uncached \<noteq> []
      \<and> (path, JsonExport out) \<in> set (res_writes (export R E cache0 conversations))
     \<longrightarrow> out_chats out = filter (notBeforeFromDate R E) (chats (res_cache (export R E cache0 conversations))))"
proof (intro conjI impI)
  assume a: "conversations \<noteq> []
      \<and> fst (filterConversationsByDepartment E conversations) \<noteq> []
      \<and> filterUncached R cache0 (fst (filterConversationsByDepartment E conversations)) = Inr []"
  then show "export R E cache0 conversations
          = \<lparr>res_outcome = Completed,
             res_writes = [(outputFile E, JsonExport (makeOutput E (length conversations)
                              (length (fst (filterConversationsByDepartment E conversations))) 0 (chats cache0)))],
             res_cache = cache0\<rparr>"
    using export_nothing_new by blast
  show "out_chats (makeOutput E (length conversations)
                (length (fst (filterConversationsByDepartment E conversations))) 0 (chats cache0)) = chats cache0"
    by (simp add: makeOutput_def)
next
  assume "filterUncached R cache0 (fst (filterConversationsByDepartment E conversations)) = Inr uncached
      \<and> uncached \<noteq> []
      \<and> (path, JsonExport out) \<in> set (res_writes (export R E cache0 conversations))"
  then show "out_chats out = filter (notBeforeFromDate R E) (chats (res_cache (export R E cache0 conversations)))"
    using export_json_write_batches by blast
qed

text \<open>
  The cache holds chat 7 of 2 January 2024 and chat 3 of 13 September 2020,
  \<^verbatim>\<open>FROM_DATE\<close> is 2024-01-01 and the API returns conversation 7 only. Nothing is new, and
  the output holds both chats, the one of 2020 included, which the date filter of the
  other path drops.
\<close>

theorem nothing_new_output_unfiltered_witness:
  "export offlineRuntime exporterOSL (cacheWith [chat7, chat3of2020]) [conversation7Bob]
     = \<lparr>res_outcome = Completed,
        res_writes = [(''exported_chats.json'', JsonExport (makeOutput exporterOSL 1 1 0 [chat7, chat3of2020]))],
        res_cache = cacheWith [chat7, chat3of2020]\<rparr>
   \<and> out_chats (makeOutput exporterOSL 1 1 0 [chat7, chat3of2020]) = [chat7, chat3of2020]
   \<and> parseInt offlineRuntime (createdAt chat3of2020) = Some 1600000000
   \<and> fromDateMillis offlineRuntime exporterOSL = Some 1704067200000
   \<and> notBeforeFromDate offlineRuntime exporterOSL chat3of2020 = False
   \<and> filter (notBeforeFromDate offlineRuntime exporterOSL) [chat7, chat3of2020] = [chat7]"
proof -
  let ?cs = "[conversation7Bob]"
  let ?c0 = "cacheWith [chat7, chat3of2020]"
  have f: "fst (filterConversationsByDepartment exporterOSL ?cs) = [withDepartment ''OSL'' conversation7Bob]"
    by code_simp
  have h: "?cs \<noteq> []
      \<and> fst (filterConversationsByDepartment exporterOSL ?cs) \<noteq> []
      \<and> filterUncached offlineRuntime ?c0 (fst (filterConversationsByDepartment exporterOSL ?cs)) = Inr []"
    by code_simp
  have o: "outputFile exporterOSL = ''exported_chats.json''" "chats ?c0 = [chat7, chat3of2020]"
    by code_simp+
  have d: "parseInt offlineRuntime (createdAt chat3of2020) = Some 1600000000"
      "fromDateMillis offlineRuntime exporterOSL = Some 1704067200000"
      "notBeforeFromDate offlineRuntime exporterOSL chat3of2020 = False"
      "filter (notBeforeFromDate offlineRuntime exporterOSL) [chat7, chat3of2020] = [chat7]"
    by code_simp+
  from nothing_new_output_unfiltered[of ?cs exporterOSL offlineRuntime ?c0] h
  have "export offlineRuntime exporterOSL ?c0 ?cs
          = \<lparr>res_outcome = Completed,
             res_writes = [(outputFile exporterOSL, JsonExport (makeOutput exporterOSL (length ?cs)
                              (length (fst (filterConversationsByDepartment exporterOSL ?cs))) 0 (chats ?c0)))],
             res_cache = ?c0\<rparr>"
      and "out_chats (makeOutput exporterOSL (length ?cs)
                (length (fst (filterConversationsByDepartment exporterOSL ?cs))) 0 (chats ?c0)) = chats ?c0"
    by blast+
  then have "export offlineRuntime exporterOSL ?c0 ?cs
     = \<lparr>res_outcome = Completed,
        res_writes = [(''exported_chats.json'', JsonExport (makeOutput exporterOSL 1 1 0 [chat7, chat3of2020]))],
        res_cache = ?c0\<rparr>"
      and "out_chats (makeOutput exporterOSL 1 1 0 [chat7, chat3of2020]) = [chat7, chat3of2020]"
    by (simp_all only: f o list.size One_nat_def[symmetric] add_0 plus_nat.add_0 Suc_eq_plus1[symmetric])
  with d show ?thesis by (intro conjI)
qed




end
